theory Spec2Isabelle
  imports Complex_Main "HOL-Library.Word"
begin

section \<open>JavaScript values\<close>

text \<open>
  The two servers of the repository (\<^verbatim>\<open>backend/server.js\<close>, called the flat variant below, and
  the server of \<^verbatim>\<open>src/unnamed/part_000\<close>, called the nested variant) compute on the values
  that \<^verbatim>\<open>express.json\<close> and \<^verbatim>\<open>axios\<close> hand to them: JSON values, plus \<^verbatim>\<open>undefined\<close>
  and \<^verbatim>\<open>NaN\<close>, which the code itself produces.

  A string is a sequence of UTF-16 code units. A number is an exact rational: rounding to
  a double and overflow are not modelled. An object is its list of own properties in
  insertion order; the constructors of arrays and objects carry no prototype, and the
  property names the servers read are none of the inherited ones.
\<close>

type_synonym jschar = "16 word"
type_synonym jsstring = "jschar list"

datatype jsval =
    Undefined
  | Null
  | Bool bool
  | Num rat
  | NaN
  | Str jsstring
  | Arr "jsval list"
  | Obj "(jsstring \<times> jsval) list"

definition js :: "string \<Rightarrow> jsstring" where
  "js s = map (\<lambda>c. of_nat (of_char c)) s"

text \<open>\<^verbatim>\<open>!x\<close> is \<open>\<not> truthy x\<close>.\<close>

fun truthy :: "jsval \<Rightarrow> bool" where
  "truthy Undefined = False"
| "truthy Null = False"
| "truthy (Bool b) = b"
| "truthy (Num r) = (r \<noteq> 0)"
| "truthy NaN = False"
| "truthy (Str s) = (s \<noteq> [])"
| "truthy (Arr xs) = True"
| "truthy (Obj kvs) = True"

text \<open>\<^verbatim>\<open>a || b\<close>\<close>

definition js_or :: "jsval \<Rightarrow> jsval \<Rightarrow> jsval" where
  "js_or a b = (if truthy a then a else b)"

section \<open>Number to string\<close>

definition digit_char :: "nat \<Rightarrow> jschar" where
  "digit_char d = of_nat (48 + d)"

function show_nat :: "nat \<Rightarrow> jsstring" where
  "show_nat n = (if n < 10 then [digit_char n] else show_nat (n div 10) @ [digit_char (n mod 10)])"
  by pat_completeness auto
termination
  by (relation "measure id") auto

declare show_nat.simps [simp del]

text \<open>
  The digits after the decimal point of \<open>x\<close> with \<open>0 \<le> x < 1\<close>; the counter bounds the
  expansion, which is finite for every number a JSON text denotes.
\<close>

fun frac_digits :: "nat \<Rightarrow> rat \<Rightarrow> jsstring" where
  "frac_digits 0 x = []"
| "frac_digits (Suc k) x =
     (if x = 0 then []
      else digit_char (nat \<lfloor>x * 10\<rfloor>) # frac_digits k (x * 10 - of_int \<lfloor>x * 10\<rfloor>))"

definition show_abs :: "rat \<Rightarrow> jsstring" where
  "show_abs r =
     show_nat (nat \<lfloor>r\<rfloor>) @
     (if r = of_int \<lfloor>r\<rfloor> then [] else js ''.'' @ frac_digits 20 (r - of_int \<lfloor>r\<rfloor>))"

definition show_num :: "rat \<Rightarrow> jsstring" where
  "show_num r = (if r < 0 then js ''-'' @ show_abs (- r) else show_abs r)"

section \<open>Conversions\<close>

text \<open>\<^verbatim>\<open>Array.prototype.join\<close> on strings already converted.\<close>

fun join_strs :: "jsstring \<Rightarrow> jsstring list \<Rightarrow> jsstring" where
  "join_strs sep [] = []"
| "join_strs sep [x] = x"
| "join_strs sep (x # y # ys) = x @ sep @ join_strs sep (y # ys)"

text \<open>
  \<^verbatim>\<open>String(v)\<close>, also the conversion of a template literal. An element of an array that is
  \<^verbatim>\<open>null\<close> or \<^verbatim>\<open>undefined\<close> is joined as the empty string.
\<close>

fun ToString :: "jsval \<Rightarrow> jsstring" where
  "ToString Undefined = js ''undefined''"
| "ToString Null = js ''null''"
| "ToString (Bool b) = (if b then js ''true'' else js ''false'')"
| "ToString (Num r) = show_num r"
| "ToString NaN = js ''NaN''"
| "ToString (Str s) = s"
| "ToString (Arr xs) =
     join_strs (js '','')
       (map (\<lambda>x. if x = Null \<or> x = Undefined then [] else ToString x) xs)"
| "ToString (Obj kvs) = js ''[object Object]''"

section \<open>sanitizeText\<close>

text \<open>
  The character class \<^verbatim>\<open>[\u0000-\u001f\u007f-\u009f]\<close> of the regular expression.
\<close>

definition is_control :: "jschar \<Rightarrow> bool" where
  "is_control c = (c \<le> 0x1f \<or> (0x7f \<le> c \<and> c \<le> 0x9f))"

text \<open>\<^verbatim>\<open>s.replace(/[\u0000-\u001f\u007f-\u009f]/g, '')\<close>\<close>

definition strip_controls :: "jsstring \<Rightarrow> jsstring" where
  "strip_controls s = filter (\<lambda>c. \<not> is_control c) s"

text \<open>
  \<^verbatim>\<open>function sanitizeText(s){ if(!s) return s; return String(s).replace(..., ''); }\<close>,
  the same in both variants.
\<close>

definition sanitizeText :: "jsval \<Rightarrow> jsval" where
  "sanitizeText s = (if \<not> truthy s then s else Str (strip_controls (ToString s)))"

section \<open>Property reads and assignments\<close>

text \<open>
  The errors the code throws with \<^verbatim>\<open>new Error(message)\<close>, and the \<^verbatim>\<open>TypeError\<close> of the
  runtime (a read from \<^verbatim>\<open>null\<close> or \<^verbatim>\<open>undefined\<close>, a call of something that is no function),
  whose message is the engine's.
\<close>

datatype error = Error jsstring | TypeError

definition nullish :: "jsval \<Rightarrow> bool" where
  "nullish v = (v = Undefined \<or> v = Null)"

text \<open>
  \<open>get v k\<close> is \<^verbatim>\<open>v.k\<close> for a data field \<open>k\<close> (no index, no \<^verbatim>\<open>length\<close>, no method) of a value
  \<open>v\<close> that is neither \<^verbatim>\<open>null\<close> nor \<^verbatim>\<open>undefined\<close>: a primitive, a string and an array have no
  such field. Reading from \<^verbatim>\<open>null\<close> or \<^verbatim>\<open>undefined\<close> throws; the functions below test
  \<open>nullish\<close> first wherever the code reads without a guard.
\<close>

fun get :: "jsval \<Rightarrow> jsstring \<Rightarrow> jsval" where
  "get (Obj kvs) k = (case map_of kvs k of None \<Rightarrow> Undefined | Some v \<Rightarrow> v)"
| "get v k = Undefined"

text \<open>\<^verbatim>\<open>v[0]\<close>, under the same proviso.\<close>

fun index0 :: "jsval \<Rightarrow> jsval" where
  "index0 (Arr xs) = (case xs of [] \<Rightarrow> Undefined | x # _ \<Rightarrow> x)"
| "index0 (Str s) = (case s of [] \<Rightarrow> Undefined | c # _ \<Rightarrow> Str [c])"
| "index0 (Obj kvs) = (case map_of kvs (js ''0'') of None \<Rightarrow> Undefined | Some v \<Rightarrow> v)"
| "index0 v = Undefined"

text \<open>\<^verbatim>\<open>o[k] = v\<close> on the property list of an object.\<close>

fun put :: "jsstring \<Rightarrow> jsval \<Rightarrow> (jsstring \<times> jsval) list \<Rightarrow> (jsstring \<times> jsval) list" where
  "put k v [] = [(k, v)]"
| "put k v ((k', v') # kvs) = (if k' = k then (k, v) # kvs else (k', v') # put k v kvs)"


fun isString :: "jsval \<Rightarrow> bool" where
  "isString (Str s) = True"
| "isString v = False"

section \<open>Strings\<close>

text \<open>
  White space and line terminators of ECMAScript, which \<^verbatim>\<open>trim\<close>, \<^verbatim>\<open>Number\<close> and
  \<^verbatim>\<open>parseInt\<close> skip.
\<close>

definition is_space :: "jschar \<Rightarrow> bool" where
  "is_space c =
     (c \<in> {0x09, 0x0a, 0x0b, 0x0c, 0x0d, 0x20, 0xa0, 0x1680, 0x2028, 0x2029, 0x202f, 0x205f,
            0x3000, 0xfeff}
      \<or> (0x2000 \<le> c \<and> c \<le> 0x200a))"

definition trim :: "jsstring \<Rightarrow> jsstring" where
  "trim s = rev (dropWhile is_space (rev (dropWhile is_space s)))"

definition starts_with :: "jsstring \<Rightarrow> jsstring \<Rightarrow> bool" where
  "starts_with s p = (take (length p) s = p)"

text \<open>\<^verbatim>\<open>s.includes(p)\<close> on strings.\<close>

fun str_includes :: "jsstring \<Rightarrow> jsstring \<Rightarrow> bool" where
  "str_includes [] p = (p = [])"
| "str_includes (c # s) p = (starts_with (c # s) p \<or> str_includes s p)"

text \<open>
  \<^verbatim>\<open>s.split(sep)\<close>: the pieces between the occurrences of \<open>sep\<close>, found from left to right;
  with the empty separator, the code units.
\<close>

function split_from :: "jsstring \<Rightarrow> jsstring \<Rightarrow> jsstring \<Rightarrow> jsstring list" where
  "split_from sep acc s =
     (if s = [] then [rev acc]
      else if sep \<noteq> [] \<and> starts_with s sep then rev acc # split_from sep [] (drop (length sep) s)
      else split_from sep (hd s # acc) (tl s))"
  by pat_completeness auto
termination
  by (relation "measure (\<lambda>(sep, acc, s). length s)") auto

declare split_from.simps [simp del]

definition split :: "jsstring \<Rightarrow> jsstring \<Rightarrow> jsstring list" where
  "split s sep = (if sep = [] then map (\<lambda>c. [c]) s else split_from sep [] s)"

section \<open>Numbers\<close>

definition is_digit :: "jschar \<Rightarrow> bool" where
  "is_digit c = (0x30 \<le> c \<and> c \<le> 0x39)"

text \<open>The value of a digit in a radix up to 16, if it is one.\<close>

definition digit_val :: "nat \<Rightarrow> jschar \<Rightarrow> nat option" where
  "digit_val radix c =
     (let d = (if 0x30 \<le> c \<and> c \<le> 0x39 then unat c - 0x30
               else if 0x61 \<le> c \<and> c \<le> 0x66 then unat c - 0x61 + 10
               else if 0x41 \<le> c \<and> c \<le> 0x46 then unat c - 0x41 + 10
               else 16)
      in if d < radix then Some d else None)"

definition digits_val :: "nat \<Rightarrow> jsstring \<Rightarrow> nat" where
  "digits_val radix s = foldl (\<lambda>a c. a * radix + (case digit_val radix c of None \<Rightarrow> 0 | Some d \<Rightarrow> d)) 0 s"

definition all_digits :: "nat \<Rightarrow> jsstring \<Rightarrow> bool" where
  "all_digits radix s = (s \<noteq> [] \<and> list_all (\<lambda>c. digit_val radix c \<noteq> None) s)"

text \<open>\<open>10\<close> to an integer power.\<close>

definition pow10 :: "int \<Rightarrow> rat" where
  "pow10 e = (if 0 \<le> e then 10 ^ nat e else 1 / 10 ^ nat (- e))"

text \<open>
  An unsigned decimal literal: digits, an optional fraction and an optional exponent.
  With \<open>strict\<close> it is the number of the JSON grammar (an integer part without a leading
  zero, digits after the point); without, the \<^verbatim>\<open>StrUnsignedDecimalLiteral\<close> of \<^verbatim>\<open>Number\<close>,
  where either side of the point may be empty.
\<close>

definition exponent_val :: "jsstring \<Rightarrow> int option" where
  "exponent_val s =
     (case s of
        [] \<Rightarrow> Some 0
      | c # r \<Rightarrow>
          if c = 0x65 \<or> c = 0x45 then
            (case r of
               [] \<Rightarrow> None
             | d # r' \<Rightarrow>
                 if d = 0x2b then (if all_digits 10 r' then Some (int (digits_val 10 r')) else None)
                 else if d = 0x2d then (if all_digits 10 r' then Some (- int (digits_val 10 r')) else None)
                 else if all_digits 10 r then Some (int (digits_val 10 r)) else None)
          else None)"

definition decimal_val :: "bool \<Rightarrow> jsstring \<Rightarrow> rat option" where
  "decimal_val strict s =
     (let ip = takeWhile is_digit s;
          r1 = dropWhile is_digit s;
          has_point = (r1 \<noteq> [] \<and> hd r1 = 0x2e);
          fp = (if has_point then takeWhile is_digit (tl r1) else []);
          r2 = (if has_point then dropWhile is_digit (tl r1) else r1)
      in if ip = [] \<and> fp = [] then None
         else if strict \<and> (ip = [] \<or> (has_point \<and> fp = []) \<or> (hd ip = 0x30 \<and> length ip > 1))
         then None
         else (case exponent_val r2 of
                 None \<Rightarrow> None
               | Some e \<Rightarrow>
                   Some ((of_nat (digits_val 10 ip) + of_nat (digits_val 10 fp) / 10 ^ length fp)
                         * pow10 e)))"

text \<open>
  \<^verbatim>\<open>Number(s)\<close> on a string: white space is trimmed, the empty string is \<open>0\<close>, then a
  hexadecimal, octal or binary integer literal or a signed decimal literal; anything else
  is \<^verbatim>\<open>NaN\<close>. The literal \<^verbatim>\<open>Infinity\<close> has no number in this model and reads as \<^verbatim>\<open>NaN\<close>.
\<close>

definition prefixed_val :: "jsstring \<Rightarrow> jsval" where
  "prefixed_val t =
     (let radix = (if take 2 t \<in> {js ''0x'', js ''0X''} then 16
                   else if take 2 t \<in> {js ''0o'', js ''0O''} then 8
                   else if take 2 t \<in> {js ''0b'', js ''0B''} then 2 else 0 :: nat)
      in if radix \<noteq> 0 \<and> all_digits radix (drop 2 t)
         then Num (of_nat (digits_val radix (drop 2 t))) else NaN)"

definition StringToNumber :: "jsstring \<Rightarrow> jsval" where
  "StringToNumber s =
     (let t = trim s in
      if t = [] then Num 0
      else if prefixed_val t \<noteq> NaN then prefixed_val t
      else if hd t = 0x2d then (case decimal_val False (tl t) of None \<Rightarrow> NaN | Some r \<Rightarrow> Num (- r))
      else if hd t = 0x2b then (case decimal_val False (tl t) of None \<Rightarrow> NaN | Some r \<Rightarrow> Num r)
      else (case decimal_val False t of None \<Rightarrow> NaN | Some r \<Rightarrow> Num r))"

text \<open>\<^verbatim>\<open>Number(v)\<close>; an array or an object is converted through its string.\<close>

fun ToNumber :: "jsval \<Rightarrow> jsval" where
  "ToNumber Undefined = NaN"
| "ToNumber Null = Num 0"
| "ToNumber (Bool b) = Num (if b then 1 else 0)"
| "ToNumber (Num r) = Num r"
| "ToNumber NaN = NaN"
| "ToNumber (Str s) = StringToNumber s"
| "ToNumber (Arr xs) = StringToNumber (ToString (Arr xs))"
| "ToNumber (Obj kvs) = NaN"

text \<open>Arithmetic on converted operands: \<^verbatim>\<open>NaN\<close> is absorbing.\<close>

fun num2 :: "(rat \<Rightarrow> rat \<Rightarrow> rat) \<Rightarrow> jsval \<Rightarrow> jsval \<Rightarrow> jsval" where
  "num2 f (Num a) (Num b) = Num (f a b)"
| "num2 f a b = NaN"

text \<open>\<^verbatim>\<open>a - b\<close>, \<^verbatim>\<open>a / 5\<close>, \<^verbatim>\<open>Math.max(a, b)\<close>, \<^verbatim>\<open>Math.min(a, b)\<close>, \<^verbatim>\<open>Math.round(a)\<close>\<close>

definition js_minus :: "jsval \<Rightarrow> jsval \<Rightarrow> jsval" where
  "js_minus a b = num2 (\<lambda>x y. x - y) (ToNumber a) (ToNumber b)"

definition js_div5 :: "jsval \<Rightarrow> jsval" where
  "js_div5 a = num2 (\<lambda>x y. x / y) (ToNumber a) (Num 5)"

definition Math_max :: "jsval \<Rightarrow> jsval \<Rightarrow> jsval" where
  "Math_max a b = num2 max (ToNumber a) (ToNumber b)"

definition Math_min :: "jsval \<Rightarrow> jsval \<Rightarrow> jsval" where
  "Math_min a b = num2 min (ToNumber a) (ToNumber b)"

text \<open>\<^verbatim>\<open>Math.round\<close> rounds a half up, as \<^const>\<open>round\<close> does.\<close>

definition Math_round :: "jsval \<Rightarrow> jsval" where
  "Math_round a = (case ToNumber a of Num x \<Rightarrow> Num (of_int (round x)) | _ \<Rightarrow> NaN)"

text \<open>
  \<^verbatim>\<open>a + b\<close>: when an operand is a string, or an array or object (whose primitive is its
  string), the strings are concatenated; otherwise the numbers are added.
\<close>

fun stringy :: "jsval \<Rightarrow> bool" where
  "stringy (Str s) = True"
| "stringy (Arr xs) = True"
| "stringy (Obj kvs) = True"
| "stringy v = False"

definition js_plus :: "jsval \<Rightarrow> jsval \<Rightarrow> jsval" where
  "js_plus a b =
     (if stringy a \<or> stringy b then Str (ToString a @ ToString b)
      else num2 (\<lambda>x y. x + y) (ToNumber a) (ToNumber b))"

text \<open>
  \<^verbatim>\<open>parseInt(v)\<close>: the string of \<open>v\<close> without leading white space, a sign, an optional
  \<^verbatim>\<open>0x\<close>, then the longest run of digits; \<^verbatim>\<open>NaN\<close> when there is none.
\<close>

definition parseInt_digits :: "nat \<Rightarrow> jsstring \<Rightarrow> jsval" where
  "parseInt_digits radix s =
     (let ds = takeWhile (\<lambda>c. digit_val radix c \<noteq> None) s
      in if ds = [] then NaN else Num (of_nat (digits_val radix ds)))"

definition parseInt_unsigned :: "jsstring \<Rightarrow> jsval" where
  "parseInt_unsigned s =
     (if take 2 s \<in> {js ''0x'', js ''0X''} then parseInt_digits 16 (drop 2 s)
      else parseInt_digits 10 s)"

definition parseInt :: "jsval \<Rightarrow> jsval" where
  "parseInt v =
     (let s = dropWhile is_space (ToString v) in
      if s \<noteq> [] \<and> hd s = 0x2d then num2 (\<lambda>x y. x * y) (Num (- 1)) (parseInt_unsigned (tl s))
      else if s \<noteq> [] \<and> hd s = 0x2b then parseInt_unsigned (tl s)
      else parseInt_unsigned s)"

section \<open>Arrays\<close>

text \<open>
  \<^verbatim>\<open>xs.slice(0, n)\<close>: with \<^verbatim>\<open>undefined\<close> for \<open>n\<close> the whole array; otherwise \<open>n\<close> is converted to
  a number and truncated, \<^verbatim>\<open>NaN\<close> counts as \<open>0\<close>, and a negative \<open>n\<close> counts from the end.
\<close>

definition trunc :: "rat \<Rightarrow> int" where
  "trunc r = (if 0 \<le> r then \<lfloor>r\<rfloor> else \<lceil>r\<rceil>)"

definition slice0 :: "'a list \<Rightarrow> jsval \<Rightarrow> 'a list" where
  "slice0 xs n =
     (if n = Undefined then xs
      else case ToNumber n of
        Num r \<Rightarrow> (if trunc r < 0 then take (nat (int (length xs) + trunc r)) xs
                   else take (nat (trunc r)) xs)
      | _ \<Rightarrow> [])"

text \<open>\<^verbatim>\<open>xs.join(sep)\<close>\<close>

definition join :: "jsval list \<Rightarrow> jsstring \<Rightarrow> jsstring" where
  "join xs sep = join_strs sep (map (\<lambda>x. if x = Null \<or> x = Undefined then [] else ToString x) xs)"

section \<open>JSON.parse\<close>

text \<open>
  The JSON grammar of ECMA-404, in two passes: the text is cut into tokens, then a stack
  automaton reads the tokens. \<open>None\<close> is the \<^verbatim>\<open>SyntaxError\<close> of \<^verbatim>\<open>JSON.parse\<close>.
\<close>

datatype token =
  TLBrace | TRBrace | TLBrack | TRBrack | TColon | TComma | TStr jsstring | TVal jsval

definition escape_char :: "jschar \<Rightarrow> jschar option" where
  "escape_char e =
     (if e = 0x22 \<or> e = 0x5c \<or> e = 0x2f then Some e
      else if e = 0x62 then Some 0x08
      else if e = 0x66 then Some 0x0c
      else if e = 0x6e then Some 0x0a
      else if e = 0x72 then Some 0x0d
      else if e = 0x74 then Some 0x09
      else None)"

definition cons_char :: "jschar \<Rightarrow> (jsstring \<times> jsstring) option \<Rightarrow> (jsstring \<times> jsstring) option" where
  "cons_char c res = (case res of None \<Rightarrow> None | Some (str, rest) \<Rightarrow> Some (c # str, rest))"

text \<open>The text after an opening quote: the string and what follows its closing quote.\<close>

fun lex_string :: "jsstring \<Rightarrow> (jsstring \<times> jsstring) option" where
  "lex_string [] = None"
| "lex_string (c # r) =
     (if c = 0x22 then Some ([], r)
      else if c < 0x20 then None
      else if c = 0x5c then
        (case r of
           [] \<Rightarrow> None
         | e # r' \<Rightarrow>
             if e = 0x75 then
               (if 4 \<le> length r' \<and> all_digits 16 (take 4 r')
                then cons_char (of_nat (digits_val 16 (take 4 r'))) (lex_string (drop 4 r'))
                else None)
             else (case escape_char e of
                     None \<Rightarrow> None
                   | Some x \<Rightarrow> cons_char x (lex_string r')))
      else cons_char c (lex_string r))"

definition is_num_char :: "jschar \<Rightarrow> bool" where
  "is_num_char c = (is_digit c \<or> c \<in> {0x2b, 0x2d, 0x2e, 0x45, 0x65})"

definition json_number :: "jsstring \<Rightarrow> rat option" where
  "json_number s =
     (if s \<noteq> [] \<and> hd s = 0x2d then map_option uminus (decimal_val True (tl s))
      else decimal_val True s)"

definition tcons :: "token \<Rightarrow> token list option \<Rightarrow> token list option" where
  "tcons t res = map_option (Cons t) res"

function lex :: "jsstring \<Rightarrow> token list option" where
  "lex [] = Some []"
| "lex (c # r) =
     (if c \<in> {0x20, 0x09, 0x0a, 0x0d} then lex r
      else if c = 0x7b then tcons TLBrace (lex r)
      else if c = 0x7d then tcons TRBrace (lex r)
      else if c = 0x5b then tcons TLBrack (lex r)
      else if c = 0x5d then tcons TRBrack (lex r)
      else if c = 0x3a then tcons TColon (lex r)
      else if c = 0x2c then tcons TComma (lex r)
      else if c = 0x22 then
        (case lex_string r of
           None \<Rightarrow> None
         | Some (str, rest) \<Rightarrow> tcons (TStr str) (lex rest))
      else if c = 0x2d \<or> is_digit c then
        (case json_number (c # takeWhile is_num_char r) of
           None \<Rightarrow> None
         | Some x \<Rightarrow> tcons (TVal (Num x)) (lex (dropWhile is_num_char r)))
      else if starts_with (c # r) (js ''true'') then tcons (TVal (Bool True)) (lex (drop 3 r))
      else if starts_with (c # r) (js ''false'') then tcons (TVal (Bool False)) (lex (drop 4 r))
      else if starts_with (c # r) (js ''null'') then tcons (TVal Null) (lex (drop 3 r))
      else None)"
  by pat_completeness auto
termination
proof -
  have shorter: "length rest < Suc (length s)" if "lex_string s = Some (str, rest)" for s str rest
    using that
  proof (induction s arbitrary: str rest rule: lex_string.induct)
    case 1
    then show ?case by simp
  next
    case (2 c r)
    then show ?case
      by (fastforce simp: cons_char_def split: if_splits list.splits option.splits)
  qed
  show ?thesis
    by (relation "measure length")
       (auto simp: length_dropWhile_le less_Suc_eq_le dest: shorter)
qed

text \<open>
  The automaton. A frame of the stack is an array or an object under construction, or the
  key whose value is being read; a duplicate key keeps its place and takes the later value.
\<close>

datatype frame = FArr "jsval list" | FObj "(jsstring \<times> jsval) list" | FKey jsstring

datatype mode = PValue | PValueOrEnd | PKeyOrEnd | PKey | PColon jsstring | PAfter | PDone jsval

fun complete :: "jsval \<Rightarrow> frame list \<Rightarrow> (frame list \<times> mode) option" where
  "complete v [] = Some ([], PDone v)"
| "complete v (FArr es # st) = Some (FArr (es @ [v]) # st, PAfter)"
| "complete v (FKey k # FObj ms # st) = Some (FObj (put k v ms) # st, PAfter)"
| "complete v st = None"

fun close_array :: "frame list \<Rightarrow> (frame list \<times> mode) option" where
  "close_array (FArr es # st) = complete (Arr es) st"
| "close_array st = None"

fun close_object :: "frame list \<Rightarrow> (frame list \<times> mode) option" where
  "close_object (FObj ms # st) = complete (Obj ms) st"
| "close_object st = None"

fun open_value :: "frame list \<Rightarrow> token \<Rightarrow> (frame list \<times> mode) option" where
  "open_value st (TVal v) = complete v st"
| "open_value st (TStr s) = complete (Str s) st"
| "open_value st TLBrack = Some (FArr [] # st, PValueOrEnd)"
| "open_value st TLBrace = Some (FObj [] # st, PKeyOrEnd)"
| "open_value st t = None"

fun step :: "frame list \<times> mode \<Rightarrow> token \<Rightarrow> (frame list \<times> mode) option" where
  "step (st, PValue) t = open_value st t"
| "step (st, PValueOrEnd) t = (if t = TRBrack then close_array st else open_value st t)"
| "step (st, PKeyOrEnd) t =
     (case t of TStr k \<Rightarrow> Some (st, PColon k) | TRBrace \<Rightarrow> close_object st | _ \<Rightarrow> None)"
| "step (st, PKey) t = (case t of TStr k \<Rightarrow> Some (st, PColon k) | _ \<Rightarrow> None)"
| "step (st, PColon k) t = (if t = TColon then Some (FKey k # st, PValue) else None)"
| "step (st, PAfter) t =
     (case t of
        TComma \<Rightarrow> (case st of FArr es # _ \<Rightarrow> Some (st, PValue)
                   | FObj ms # _ \<Rightarrow> Some (st, PKey)
                   | _ \<Rightarrow> None)
      | TRBrack \<Rightarrow> close_array st
      | TRBrace \<Rightarrow> close_object st
      | _ \<Rightarrow> None)"
| "step (st, PDone v) t = None"

fun run :: "frame list \<times> mode \<Rightarrow> token list \<Rightarrow> jsval option" where
  "run (st, m) [] = (case m of PDone v \<Rightarrow> Some v | _ \<Rightarrow> None)"
| "run (st, m) (t # ts) = (case step (st, m) t of None \<Rightarrow> None | Some s' \<Rightarrow> run s' ts)"

definition JSON_parse :: "jsstring \<Rightarrow> jsval option" where
  "JSON_parse s = (case lex s of None \<Rightarrow> None | Some ts \<Rightarrow> run ([], PValue) ts)"

section \<open>The process, the request and the response\<close>

text \<open>
  What a request handler depends on besides its request: the two environment variables
  read at start-up, the outcome of the one \<^verbatim>\<open>axios.post\<close> (an exception, or the \<^verbatim>\<open>data\<close> of the
  response), and the values of \<^verbatim>\<open>uuidv4()\<close> and \<^verbatim>\<open>new Date().toISOString()\<close>.
\<close>

text \<open>
  The instruction text of \<^verbatim>\<open>buildPrompt\<close> is a fixed template; it is represented by the
  values serialised into its holes, in the order of the template. The text itself, and
  the constant \<^verbatim>\<open>system\<close> text, are not rendered.
\<close>

datatype instruction = Instruction jsval jsval jsval "jsval option"

record env =
  USE_MOCK :: bool
  GEMINI_API_KEY :: "jsstring option"
  axios_post :: "instruction \<Rightarrow> error + jsval"
  uuidv4 :: jsstring
  now :: jsstring

record request =
  req_body :: jsval
  query_max :: jsval
  query_exclude :: jsval
  query_seed :: jsval

text \<open>
  The body of a response: \<^verbatim>\<open>res.send(text)\<close>, \<^verbatim>\<open>res.json(value)\<close>, or the body of a 500
  response, which is made of the message of the error that was caught.
\<close>

datatype payload = Text jsstring | Json jsval | Failure error

record response =
  status :: nat
  payload :: payload

text \<open>The calls of a gateway that a handler makes, in order.\<close>

datatype event = Mock_call | Post_call instruction

text \<open>
  What a handler does: the response it sends, the gateway calls it makes, and the body of
  the request afterwards, since sanitizing assigns to the properties of the profile, which
  is part of the body.
\<close>

record outcome =
  sent :: response
  calls :: "event list"
  body_after :: jsval

section \<open>buildPrompt\<close>

text \<open>The object \<^verbatim>\<open>p\<close>, the same in both variants; \<open>profile\<close> is not \<open>nullish\<close>.\<close>

definition canonical_profile :: "jsval \<Rightarrow> jsval" where
  "canonical_profile profile = Obj
     [(js ''age'', get profile (js ''age'')),
      (js ''gender'', get profile (js ''gender'')),
      (js ''favorite_video_games'', js_or (get profile (js ''favorite_video_games'')) (Arr [])),
      (js ''favorite_board_games'', js_or (get profile (js ''favorite_board_games'')) (Arr [])),
      (js ''fiction_preference'', js_or (get profile (js ''fiction_preference'')) (Str (js ''both''))),
      (js ''movie_genres'', js_or (get profile (js ''movie_genres'')) (Arr [])),
      (js ''reading_level'', get profile (js ''reading_level'')),
      (js ''interests'', js_or (get profile (js ''interests'')) (Arr [])),
      (js ''preferred_format'', get profile (js ''preferred_format'')),
      (js ''minutes_per_week'', get profile (js ''minutes_per_week'')),
      (js ''language'', get profile (js ''language'')),
      (js ''accessibility_needs'', js_or (get profile (js ''accessibility_needs'')) (Arr [])),
      (js ''max_price'', js_or (get profile (js ''max_price'')) Null),
      (js ''favorite_authors'', js_or (get profile (js ''favorite_authors'')) (Arr [])),
      (js ''disliked_themes'', js_or (get profile (js ''disliked_themes'')) (Arr [])),
      (js ''surprise'', Bool (truthy (get profile (js ''surprise''))))]"

text \<open>
  Nested variant: the profile, \<^verbatim>\<open>maxPerCategory\<close> and \<^verbatim>\<open>excludeTitles || []\<close>; the seed is
  not used.
\<close>

definition buildPrompt_nested :: "jsval \<Rightarrow> jsval \<Rightarrow> jsval \<Rightarrow> jsval \<Rightarrow> instruction" where
  "buildPrompt_nested profile maxPerCategory excludeTitles seed =
     Instruction (canonical_profile profile) maxPerCategory (js_or excludeTitles (Arr [])) None"

text \<open>Flat variant: the profile, \<^verbatim>\<open>maxPerCategory\<close>, \<^verbatim>\<open>excludeTitles\<close> and the seed.\<close>

definition buildPrompt_flat :: "jsval \<Rightarrow> jsval \<Rightarrow> jsval \<Rightarrow> jsval \<Rightarrow> instruction" where
  "buildPrompt_flat profile maxPerCategory excludeTitles seed =
     Instruction (canonical_profile profile) maxPerCategory excludeTitles (Some seed)"

section \<open>The nested variant\<close>

text \<open>
  The closure \<^verbatim>\<open>make\<close> of \<^verbatim>\<open>mockLLMResponse\<close>. \<^verbatim>\<open>(profile.interests||[]).slice(0,2).join(...)\<close>
  is a \<^verbatim>\<open>TypeError\<close> unless the interests are absent, falsy or an array: no other value has
  a \<^verbatim>\<open>slice\<close> whose result has a \<^verbatim>\<open>join\<close>.
\<close>

definition make :: "jsval \<Rightarrow> jsstring \<Rightarrow> jsval \<Rightarrow> bool \<Rightarrow> error + jsval" where
  "make profile title tags fiction =
     (if nullish profile then Inl TypeError
      else case js_or (get profile (js ''interests'')) (Arr []) of
        Arr xs \<Rightarrow>
          Inr (Obj
            [(js ''title'', Str title),
             (js ''author'', Str (js ''A. Writer'')),
             (js ''year'', Num 2020),
             (js ''isbn'', Null),
             (js ''cover_url'', Null),
             (js ''short_description'',
                Str (take 250
                  (title @ js '' is a fun '' @ (if fiction then js ''story'' else js ''book'')
                   @ js '' about ''
                   @ ToString (js_or (Str (join (slice0 xs (Num 2)) (js '' and '')))
                                 (Str (js ''adventure'')))
                   @ js ''.''))),
             (js ''age_range'',
                Str (ToString (Math_max (Num 4) (js_minus (get profile (js ''age'')) (Num 2)))
                     @ js ''-'' @ ToString (js_plus (get profile (js ''age'')) (Num 3)))),
             (js ''why_recommended'',
                Str (js ''Matches interests: ''
                     @ ToString (js_or (Str (join (slice0 xs (Num 3)) (js '', '')))
                                   (Str (js ''general fun'')))
                     @ js ''.'')),
             (js ''tags'', tags),
             (js ''reading_time_minutes'',
                Math_max (Num 10)
                  (Math_round (js_div5 (js_or (get profile (js ''minutes_per_week'')) (Num 60))))),
             (js ''confidence'', Num (85 / 100))])
      | _ \<Rightarrow> Inl TypeError)"

text \<open>
  The loop \<^verbatim>\<open>for(let i=0; i<bound; i++){ fiction.push(make(...)); nonfiction.push(make(...)); }\<close>
  from \<open>i\<close> on; a comparison with \<^verbatim>\<open>NaN\<close> is false.
\<close>

fun below :: "nat \<Rightarrow> jsval \<Rightarrow> bool" where
  "below i (Num b) = (of_nat i < b)"
| "below i v = False"

function fill :: "jsval \<Rightarrow> jsval \<Rightarrow> nat \<Rightarrow> jsval list \<Rightarrow> jsval list
    \<Rightarrow> error + jsval list \<times> jsval list" where
  "fill profile bound i fiction nonfiction =
     (if below i bound then
        (case make profile (js ''Fun Story '' @ show_nat (i + 1))
                (Arr [Str (js ''adventure''), Str (js ''friendship'')]) True of
           Inl e \<Rightarrow> Inl e
         | Inr f \<Rightarrow>
             (case make profile (js ''Real Facts '' @ show_nat (i + 1))
                     (Arr [Str (js ''science''), Str (js ''learning'')]) False of
                Inl e \<Rightarrow> Inl e
              | Inr n \<Rightarrow> fill profile bound (i + 1) (fiction @ [f]) (nonfiction @ [n])))
      else Inr (fiction, nonfiction))"
  by pat_completeness auto
termination
proof (relation "measure (\<lambda>(profile, bound, i, fiction, nonfiction).
         case bound of Num b \<Rightarrow> nat \<lceil>b\<rceil> - i | _ \<Rightarrow> 0)")
  show "wf (measure (\<lambda>(profile, bound, i, fiction, nonfiction).
         case bound of Num b \<Rightarrow> nat \<lceil>b\<rceil> - i | _ \<Rightarrow> 0))"
    by simp
next
  fix profile bound :: jsval and i :: nat and fiction nonfiction :: "jsval list"
  assume "below i bound"
  then obtain b where b: "bound = Num b" "of_nat i < b"
    by (cases bound) auto
  then have "int i < \<lceil>b\<rceil>"
    by (simp add: less_ceiling_iff)
  with b show "((profile, bound, i + 1, fiction @ [f], nonfiction @ [n]),
        (profile, bound, i, fiction, nonfiction))
      \<in> measure (\<lambda>(profile, bound, i, fiction, nonfiction).
         case bound of Num b \<Rightarrow> nat \<lceil>b\<rceil> - i | _ \<Rightarrow> 0)" for f n
    by simp
qed

declare fill.simps [simp del]

text \<open>\<^verbatim>\<open>mockLLMResponse(profile, prompt)\<close>, with \<open>maxPerCategory\<close> for \<^verbatim>\<open>prompt.maxPerCategory\<close>.\<close>

definition mockLLMResponse_nested :: "env \<Rightarrow> jsval \<Rightarrow> jsval \<Rightarrow> error + jsval" where
  "mockLLMResponse_nested e profile maxPerCategory =
     (case fill profile (Math_min (Num 5) (js_or maxPerCategory (Num 5))) 0 [] [] of
        Inl err \<Rightarrow> Inl err
      | Inr (fiction, nonfiction) \<Rightarrow>
          Inr (Obj
            [(js ''metadata'',
                Obj [(js ''request_id'', Str (uuidv4 e)),
                     (js ''model'', Str (js ''gemini-2.5-flash'')),
                     (js ''timestamp'', Str (now e))]),
             (js ''results'',
                Obj [(js ''fiction'', Arr fiction), (js ''nonfiction'', Arr nonfiction)]),
             (js ''warnings'', Arr []),
             (js ''excluded_titles'', Arr [])]))"

text \<open>
  \<^verbatim>\<open>json.metadata = {...}\<close> on the parsed value: a \<^verbatim>\<open>TypeError\<close> on \<^verbatim>\<open>null\<close>, without effect on a
  primitive (the module is not in strict mode). On an array it adds a property that an
  \<open>Arr\<close> cannot carry; the array is only ever passed to \<^verbatim>\<open>validateSchema\<close>, which rejects
  it with or without that property, for want of \<^verbatim>\<open>results\<close>.
\<close>

definition attach_metadata :: "env \<Rightarrow> jsval \<Rightarrow> error + jsval" where
  "attach_metadata e json =
     (case json of
        Null \<Rightarrow> Inl TypeError
      | Undefined \<Rightarrow> Inl TypeError
      | Obj kvs \<Rightarrow>
          Inr (Obj (put (js ''metadata'')
                 (Obj [(js ''request_id'', Str (uuidv4 e)),
                       (js ''model'', Str (js ''gemini-pro'')),
                       (js ''timestamp'', Str (now e))]) kvs))
      | v \<Rightarrow> Inr v)"

text \<open>
  The \<^verbatim>\<open>try\<close> block of \<^verbatim>\<open>callGemini\<close> on the first candidate \<open>c\<close>, which is truthy:
  \<^verbatim>\<open>c.content.parts[0].text\<close>, \<^verbatim>\<open>text.substring\<close> (a method of strings only), \<^verbatim>\<open>JSON.parse\<close>
  and the metadata. \<open>None\<close> stands for any exception, which the \<^verbatim>\<open>catch\<close> replaces.
\<close>

definition parse_candidate :: "env \<Rightarrow> jsval \<Rightarrow> jsval option" where
  "parse_candidate e c =
     (let content = get c (js ''content'') in
      if nullish content then None
      else let parts = get content (js ''parts'') in
      if nullish parts then None
      else let part = index0 parts in
      if nullish part then None
      else case get part (js ''text'') of
        Str text \<Rightarrow>
          (case JSON_parse text of
             None \<Rightarrow> None
           | Some json \<Rightarrow> (case attach_metadata e json of Inl err \<Rightarrow> None | Inr v \<Rightarrow> Some v))
      | _ \<Rightarrow> None)"

text \<open>
  \<^verbatim>\<open>callGemini(prompt, profile)\<close>: the result or the exception, and the gateway calls made.
  The message of the last error ends with the message of the exception it replaces.
\<close>

definition callGemini_nested ::
    "env \<Rightarrow> instruction \<Rightarrow> jsval \<Rightarrow> jsval \<Rightarrow> (error + jsval) \<times> event list" where
  "callGemini_nested e instr maxPerCategory profile =
     (if USE_MOCK e then (mockLLMResponse_nested e profile maxPerCategory, [Mock_call])
      else case GEMINI_API_KEY e of
        None \<Rightarrow> (Inl (Error (js ''GEMINI_API_KEY not set - check your .env file'')), [])
      | Some apiKey \<Rightarrow>
          if apiKey = [] \<or> trim apiKey = []
          then (Inl (Error (js ''GEMINI_API_KEY not set - check your .env file'')), [])
          else (case axios_post e instr of
                  Inl err \<Rightarrow> (Inl err, [Post_call instr])
                | Inr data \<Rightarrow>
                    if \<not> truthy data \<or> \<not> truthy (get data (js ''candidates''))
                       \<or> \<not> truthy (index0 (get data (js ''candidates'')))
                    then (Inl (Error (js ''Invalid response from Gemini'')), [Post_call instr])
                    else (case parse_candidate e (index0 (get data (js ''candidates''))) of
                            None \<Rightarrow>
                              (Inl (Error (js ''Failed to parse Gemini response as JSON: '')),
                               [Post_call instr])
                          | Some json \<Rightarrow> (Inr json, [Post_call instr]))))"

definition validateSchema :: "jsval \<Rightarrow> bool" where
  "validateSchema obj =
     (if \<not> truthy obj \<or> \<not> truthy (get obj (js ''metadata'')) \<or> \<not> truthy (get obj (js ''results''))
      then False else True)"

text \<open>
  The sanitizing loop of the handler over the seven array fields: \<^verbatim>\<open>profile[k]\<close> is an
  array only when \<open>profile\<close> is an object.
\<close>

definition array_fields :: "jsstring list" where
  "array_fields =
     [js ''favorite_video_games'', js ''favorite_board_games'', js ''movie_genres'',
      js ''interests'', js ''accessibility_needs'', js ''favorite_authors'',
      js ''disliked_themes'']"

definition sanitize_field :: "jsval \<Rightarrow> jsstring \<Rightarrow> jsval" where
  "sanitize_field profile k =
     (case (profile, get profile k) of
        (Obj kvs, Arr xs) \<Rightarrow> Obj (put k (Arr (map sanitizeText xs)) kvs)
      | _ \<Rightarrow> profile)"

definition sanitize_profile_nested :: "jsval \<Rightarrow> jsval" where
  "sanitize_profile_nested profile = foldl sanitize_field profile array_fields"

definition exclude_titles_nested :: "jsval \<Rightarrow> jsval" where
  "exclude_titles_nested body =
     (case get body (js ''exclude_titles'') of
        Arr xs \<Rightarrow> Arr (map sanitizeText xs)
      | _ \<Rightarrow> Arr [])"

text \<open>\<^verbatim>\<open>Number(body.max_results_per_category) || 5\<close>\<close>

definition maxPerCategory_nested :: "jsval \<Rightarrow> jsval" where
  "maxPerCategory_nested body =
     js_or (ToNumber (get body (js ''max_results_per_category''))) (Num 5)"

text \<open>
  \<^verbatim>\<open>app.post('/api/recommend', ...)\<close>. A body with a truthy \<^verbatim>\<open>profile\<close> is an object; the
  sanitized arrays are assigned to the properties of its profile.
\<close>

definition store_profile :: "jsval \<Rightarrow> jsval \<Rightarrow> jsval" where
  "store_profile b profile =
     (case b of Obj kvs \<Rightarrow> Obj (put (js ''profile'') profile kvs) | v \<Rightarrow> v)"

definition recommend_nested :: "env \<Rightarrow> request \<Rightarrow> outcome" where
  "recommend_nested e req =
     (if \<not> truthy (req_body req) \<or> \<not> truthy (get (req_body req) (js ''profile''))
      then \<lparr>sent = \<lparr>status = 400, payload = Text (js ''profile required'')\<rparr>,
            calls = [], body_after = req_body req\<rparr>
      else
        let profile = sanitize_profile_nested (get (req_body req) (js ''profile''));
            exclude_titles = exclude_titles_nested (req_body req);
            maxPerCategory = maxPerCategory_nested (req_body req);
            seed = js_or (get (req_body req) (js ''seed'')) Null;
            prompt = buildPrompt_nested profile maxPerCategory exclude_titles seed
        in case callGemini_nested e prompt maxPerCategory profile of
             (Inl err, evs) \<Rightarrow>
               \<lparr>sent = \<lparr>status = 500, payload = Failure err\<rparr>,
                calls = evs, body_after = store_profile (req_body req) profile\<rparr>
           | (Inr llmResp, evs) \<Rightarrow>
               if \<not> validateSchema llmResp
               then \<lparr>sent = \<lparr>status = 502, payload = Text (js ''Model returned invalid schema'')\<rparr>,
                     calls = evs, body_after = store_profile (req_body req) profile\<rparr>
               else \<lparr>sent = \<lparr>status = 200, payload = Json llmResp\<rparr>,
                     calls = evs, body_after = store_profile (req_body req) profile\<rparr>)"

section \<open>The flat variant\<close>

text \<open>
  \<^verbatim>\<open>mockLLMResponse(profile, maxPerCategory)\<close>: one hard-coded book per category, whose
  \<^verbatim>\<open>why_recommended\<close> reads \<^verbatim>\<open>profile.name\<close>, then \<^verbatim>\<open>slice(0, maxPerCategory)\<close>.
\<close>

definition sample_fiction :: "jsval \<Rightarrow> jsval" where
  "sample_fiction profile = Obj
     [(js ''title'', Str (js ''The Dragon's Secret'')),
      (js ''author'', Str (js ''Maria Swift'')),
      (js ''year'', Num 2023),
      (js ''isbn'', Str (js ''978-1234567890'')),
      (js ''cover_url'', Str (js ''https://via.placeholder.com/200x300'')),
      (js ''short_description'',
         Str (js ''A young wizard discovers a friendly dragon hiding in the school library, leading to an adventure about friendship and courage.'')),
      (js ''age_range'', Str (js ''8-12'')),
      (js ''why_recommended'',
         Str (js ''Based on '' @ ToString (get profile (js ''name''))
              @ [0x27] @ js ''s interest in fantasy games and love of adventure stories.'')),
      (js ''tags'',
         Arr [Str (js ''fantasy''), Str (js ''friendship''), Str (js ''adventure''),
              Str (js ''dragons'')]),
      (js ''content_warnings'', Arr [Str (js ''mild peril'')])]"

definition sample_nonfiction :: "jsval \<Rightarrow> jsval" where
  "sample_nonfiction profile = Obj
     [(js ''title'', Str (js ''Amazing Science Experiments at Home'')),
      (js ''author'', Str (js ''Dr. Sarah Smart'')),
      (js ''year'', Num 2024),
      (js ''isbn'', Str (js ''978-0987654321'')),
      (js ''cover_url'', Str (js ''https://via.placeholder.com/200x300'')),
      (js ''short_description'',
         Str (js ''A collection of safe and fun science experiments that can be done with everyday household items.'')),
      (js ''age_range'', Str (js ''7-13'')),
      (js ''why_recommended'',
         Str (js ''Perfect for '' @ ToString (get profile (js ''name''))
              @ [0x27] @ js ''s interest in science and hands-on activities.'')),
      (js ''tags'',
         Arr [Str (js ''science''), Str (js ''experiments''), Str (js ''education''),
              Str (js ''STEM'')]),
      (js ''content_warnings'', Null)]"

definition mockLLMResponse_flat :: "jsval \<Rightarrow> jsval \<Rightarrow> error + jsval" where
  "mockLLMResponse_flat profile maxPerCategory =
     (if nullish profile then Inl TypeError
      else Inr (Obj
        [(js ''results'',
            Obj [(js ''fiction'', Arr (slice0 [sample_fiction profile] maxPerCategory)),
                 (js ''nonfiction'', Arr (slice0 [sample_nonfiction profile] maxPerCategory))])]))"

text \<open>
  \<^verbatim>\<open>text.split(fence)[1].split('```')[0].trim()\<close>; a missing piece would be a \<^verbatim>\<open>TypeError\<close>.
\<close>

definition between_fences :: "jsstring \<Rightarrow> jsstring \<Rightarrow> error + jsstring" where
  "between_fences text fence =
     (case split text fence of
        _ # piece # _ \<Rightarrow>
          (case split piece (js ''```'') of
             first # _ \<Rightarrow> Inr (trim first)
           | [] \<Rightarrow> Inl TypeError)
      | _ \<Rightarrow> Inl TypeError)"

definition extract_json :: "jsstring \<Rightarrow> error + jsstring" where
  "extract_json text =
     (if str_includes text (js ''```json'') then between_fences text (js ''```json'')
      else if str_includes text (js ''```'') then between_fences text (js ''```'')
      else Inr text)"

definition parse_json_flat :: "jsstring \<Rightarrow> error + jsval" where
  "parse_json_flat jsonStr =
     (case JSON_parse jsonStr of
        None \<Rightarrow> Inl (Error (js ''Invalid JSON response from Gemini''))
      | Some v \<Rightarrow> Inr v)"

text \<open>
  The end of \<^verbatim>\<open>callGemini\<close> on the truthy \<^verbatim>\<open>text\<close> of the first part. Only a string and an
  array have \<^verbatim>\<open>includes\<close>, and only a string has \<^verbatim>\<open>split\<close>; \<^verbatim>\<open>JSON.parse\<close> converts an array
  to its string.
\<close>

definition parse_text_flat :: "jsval \<Rightarrow> error + jsval" where
  "parse_text_flat text =
     (case text of
        Str t \<Rightarrow> (case extract_json t of Inl err \<Rightarrow> Inl err | Inr jsonStr \<Rightarrow> parse_json_flat jsonStr)
      | Arr xs \<Rightarrow>
          if Str (js ''```json'') \<in> set xs \<or> Str (js ''```'') \<in> set xs then Inl TypeError
          else parse_json_flat (ToString (Arr xs))
      | _ \<Rightarrow> Inl TypeError)"

text \<open>\<^verbatim>\<open>callGemini(profile, maxPerCategory, excludeTitles, seed)\<close>\<close>

definition callGemini_flat ::
    "env \<Rightarrow> jsval \<Rightarrow> jsval \<Rightarrow> jsval \<Rightarrow> jsval \<Rightarrow> (error + jsval) \<times> event list" where
  "callGemini_flat e profile maxPerCategory excludeTitles seed =
     (if GEMINI_API_KEY e = None \<or> GEMINI_API_KEY e = Some []
      then (Inl (Error (js ''GEMINI_API_KEY is not configured'')), [])
      else if nullish profile then (Inl TypeError, [])
      else
        let instr = buildPrompt_flat profile maxPerCategory excludeTitles seed in
        case axios_post e instr of
          Inl err \<Rightarrow> (Inl err, [Post_call instr])
        | Inr data \<Rightarrow>
            if \<not> truthy data \<or> \<not> truthy (get data (js ''candidates''))
               \<or> \<not> truthy (index0 (get data (js ''candidates'')))
            then (Inl (Error (js ''Invalid response from Gemini API'')), [Post_call instr])
            else
              let content = get (index0 (get data (js ''candidates''))) (js ''content'') in
              if \<not> truthy content \<or> \<not> truthy (get content (js ''parts''))
                 \<or> \<not> truthy (index0 (get content (js ''parts'')))
                 \<or> \<not> truthy (get (index0 (get content (js ''parts''))) (js ''text''))
              then (Inl (Error (js ''No text content in Gemini response'')), [Post_call instr])
              else (parse_text_flat (get (index0 (get content (js ''parts''))) (js ''text'')),
                    [Post_call instr]))"

text \<open>
  \<^verbatim>\<open>Object.keys(profile).forEach(key => { if (typeof profile[key] === 'string') ... })\<close> on a
  profile that has passed the handler's test, which only an object does.
\<close>

definition sanitize_profile_flat :: "jsval \<Rightarrow> jsval" where
  "sanitize_profile_flat profile =
     (case profile of
        Obj kvs \<Rightarrow> Obj (map (\<lambda>(k, v). (k, if isString v then sanitizeText v else v)) kvs)
      | v \<Rightarrow> v)"

text \<open>\<^verbatim>\<open>Math.min(parseInt(req.query.max || '3'), 5)\<close>\<close>

definition maxPerCategory_flat :: "request \<Rightarrow> jsval" where
  "maxPerCategory_flat req = Math_min (parseInt (js_or (query_max req) (Str (js ''3'')))) (Num 5)"

text \<open>
  \<^verbatim>\<open>(req.query.exclude || '').split(',').filter(Boolean)\<close>: a query value that is not a string
  has no \<^verbatim>\<open>split\<close>.
\<close>

definition exclude_titles_flat :: "request \<Rightarrow> error + jsval" where
  "exclude_titles_flat req =
     (case js_or (query_exclude req) (Str []) of
        Str s \<Rightarrow> Inr (Arr (map Str (filter (\<lambda>x. x \<noteq> []) (split s (js '','')))))
      | _ \<Rightarrow> Inl TypeError)"

text \<open>
  \<^verbatim>\<open>app.post('/api/recommend', ...)\<close>. Reading \<^verbatim>\<open>req.body.profile\<close> throws inside the \<^verbatim>\<open>try\<close>
  when there is no body. The profile is \<^verbatim>\<open>req.body.profile\<close> when that is truthy and the
  body itself otherwise, and the sanitized strings are assigned to its properties.
\<close>

definition store_flat :: "jsval \<Rightarrow> jsval \<Rightarrow> jsval" where
  "store_flat b profile =
     (if truthy (get b (js ''profile'')) then store_profile b profile else profile)"

definition recommend_flat :: "env \<Rightarrow> request \<Rightarrow> outcome" where
  "recommend_flat e req =
     (if nullish (req_body req)
      then \<lparr>sent = \<lparr>status = 500, payload = Failure TypeError\<rparr>,
            calls = [], body_after = req_body req\<rparr>
      else
        let profile = js_or (get (req_body req) (js ''profile'')) (req_body req) in
        if \<not> truthy profile \<or> \<not> truthy (get profile (js ''age''))
           \<or> \<not> truthy (get profile (js ''reading_level''))
        then \<lparr>sent = \<lparr>status = 400,
                     payload = Json (Obj [(js ''error'',
                       Str (js ''Invalid request. Required fields: age, reading_level''))])\<rparr>,
              calls = [], body_after = req_body req\<rparr>
        else
          let sanitized = sanitize_profile_flat profile;
              after = store_flat (req_body req) sanitized;
              maxPerCategory = maxPerCategory_flat req
          in case exclude_titles_flat req of
               Inl err \<Rightarrow>
                 \<lparr>sent = \<lparr>status = 500, payload = Failure err\<rparr>, calls = [], body_after = after\<rparr>
             | Inr excludeTitles \<Rightarrow>
                 let seed = js_or (query_seed req) (Str (uuidv4 e)) in
                 if USE_MOCK e then
                   (case mockLLMResponse_flat sanitized maxPerCategory of
                      Inl err \<Rightarrow>
                        \<lparr>sent = \<lparr>status = 500, payload = Failure err\<rparr>,
                         calls = [Mock_call], body_after = after\<rparr>
                    | Inr result \<Rightarrow>
                        \<lparr>sent = \<lparr>status = 200, payload = Json result\<rparr>,
                         calls = [Mock_call], body_after = after\<rparr>)
                 else
                   (case callGemini_flat e sanitized maxPerCategory excludeTitles seed of
                      (Inl err, evs) \<Rightarrow>
                        \<lparr>sent = \<lparr>status = 500, payload = Failure err\<rparr>,
                         calls = evs, body_after = after\<rparr>
                    | (Inr result, evs) \<Rightarrow>
                        \<lparr>sent = \<lparr>status = 200, payload = Json result\<rparr>,
                         calls = evs, body_after = after\<rparr>))"

section \<open>Requests and remote responses used below\<close>

text \<open>A process in mock mode, and one in live mode whose remote call returns \<open>data\<close>.\<close>

definition mock_env :: env where
  "mock_env =
     \<lparr>USE_MOCK = True, GEMINI_API_KEY = None,
      axios_post = (\<lambda>instr. Inl (Error (js ''connect ECONNREFUSED''))),
      uuidv4 = js ''1b4e28ba'', now = js ''2025-01-01T00:00:00.000Z''\<rparr>"

definition live_env :: "jsval \<Rightarrow> env" where
  "live_env data =
     \<lparr>USE_MOCK = False, GEMINI_API_KEY = Some (js ''secret''),
      axios_post = (\<lambda>instr. Inr data),
      uuidv4 = js ''1b4e28ba'', now = js ''2025-01-01T00:00:00.000Z''\<rparr>"

text \<open>A request with the body \<open>b\<close> and no query string.\<close>

definition post :: "jsval \<Rightarrow> request" where
  "post b = \<lparr>req_body = b, query_max = Undefined, query_exclude = Undefined, query_seed = Undefined\<rparr>"

text \<open>
  \<^verbatim>\<open>data?.candidates?.[0]?.content?.parts?.[0]?.text\<close>: the text of the first candidate of a
  remote response, \<^verbatim>\<open>undefined\<close> when a step of the path is missing.
\<close>

definition candidate_text :: "jsval \<Rightarrow> jsval" where
  "candidate_text c =
     (if nullish c then Undefined
      else let content = get c (js ''content'') in
      if nullish content then Undefined
      else let parts = get content (js ''parts'') in
      if nullish parts then Undefined
      else let part = index0 parts in
      if nullish part then Undefined
      else get part (js ''text''))"

definition response_text :: "jsval \<Rightarrow> jsval" where
  "response_text data =
     (if nullish data \<or> nullish (get data (js ''candidates'')) then Undefined
      else candidate_text (index0 (get data (js ''candidates''))))"

text \<open>The least remote response whose first candidate carries the text \<open>t\<close>.\<close>

definition text_response :: "jsstring \<Rightarrow> jsval" where
  "text_response t =
     Obj [(js ''candidates'',
           Arr [Obj [(js ''content'', Obj [(js ''parts'', Arr [Obj [(js ''text'', Str t)]])])]])]"


text \<open>
  A remote response whose candidate list is empty, or whose first candidate has no text or
  an empty one.
\<close>

definition no_candidate_text :: "jsval \<Rightarrow> bool" where
  "no_candidate_text data =
     (case get data (js ''candidates'') of
        Arr [] \<Rightarrow> True
      | Arr (c # cs) \<Rightarrow> \<not> truthy (candidate_text c)
      | _ \<Rightarrow> False)"



section \<open>Properties of sanitizeText\<close>

lemma strip_controls_idem: "strip_controls (strip_controls s) = strip_controls s"
  by (simp add: strip_controls_def)

lemma strip_controls_clean: "c \<in> set (strip_controls s) \<Longrightarrow> \<not> is_control c"
  by (simp add: strip_controls_def)

lemma sanitizeText_Str: "sanitizeText (Str s) = Str (strip_controls s)"
  by (simp add: sanitizeText_def strip_controls_def)

text \<open>
  C5. For every string \<open>s\<close>, sanitizing twice is sanitizing once, the sanitized string has
  no code unit in U+0000..U+001F or U+007F..U+009F, and \<^verbatim>\<open>null\<close> and \<^verbatim>\<open>undefined\<close> are
  returned as they are.
\<close>

theorem sanitizeText_idempotent_clean:
  "sanitizeText (sanitizeText (Str s)) = sanitizeText (Str s)
   \<and> (\<exists>t. sanitizeText (Str s) = Str t
          \<and> (\<forall>c \<in> set t. \<not> (c \<le> 0x1f) \<and> \<not> (0x7f \<le> c \<and> c \<le> 0x9f)))
   \<and> sanitizeText Null = Null
   \<and> sanitizeText Undefined = Undefined"
proof -
  have idem: "sanitizeText (sanitizeText (Str s)) = sanitizeText (Str s)"
    by (simp add: sanitizeText_Str strip_controls_idem)
  have clean: "\<forall>c \<in> set (strip_controls s). \<not> (c \<le> 0x1f) \<and> \<not> (0x7f \<le> c \<and> c \<le> 0x9f)"
    using strip_controls_clean [of _ s] by (auto simp: is_control_def)
  have pass: "sanitizeText Null = Null" "sanitizeText Undefined = Undefined"
    by (simp_all add: sanitizeText_def)
  from idem clean pass show ?thesis
    by (simp add: sanitizeText_Str)
qed

theorem sanitizeText_idempotent_clean_witness:
  "sanitizeText (sanitizeText (Str [0x61, 0x07, 0x85, 0x62])) = Str [0x61, 0x62]
   \<and> sanitizeText (Str [0x61, 0x07, 0x85, 0x62]) = Str [0x61, 0x62]
   \<and> sanitizeText Null = Null"
  using sanitizeText_idempotent_clean [of "[0x61, 0x07, 0x85, 0x62]"]
  by (simp add: sanitizeText_Str strip_controls_def is_control_def)

section \<open>The request is validated first\<close>

lemma js_or_Undefined [simp]: "js_or Undefined b = b"
  by (simp add: js_or_def)

text \<open>
  C4, as amended. A request whose body has no \<^verbatim>\<open>profile\<close> field is answered 400 by the
  nested variant, which calls no gateway. The flat variant takes such a body for the
  profile itself: it answers 400, calls no gateway and leaves the body as it is when the
  body has no truthy \<^verbatim>\<open>age\<close> or no truthy \<^verbatim>\<open>reading_level\<close>, and does not answer 400 when it has
  both.
\<close>

theorem missing_profile_rejected:
  "get (req_body req) (js ''profile'') = Undefined \<Longrightarrow>
     recommend_nested e req =
       \<lparr>sent = \<lparr>status = 400, payload = Text (js ''profile required'')\<rparr>,
        calls = [], body_after = req_body req\<rparr>
     \<and> (\<not> nullish (req_body req) \<longrightarrow>
          (if truthy (get (req_body req) (js ''age''))
              \<and> truthy (get (req_body req) (js ''reading_level''))
           then status (sent (recommend_flat e req)) \<noteq> 400
           else status (sent (recommend_flat e req)) = 400
                \<and> calls (recommend_flat e req) = []
                \<and> body_after (recommend_flat e req) = req_body req))"
proof -
  assume np: "get (req_body req) (js ''profile'') = Undefined"
  have nested: "recommend_nested e req =
       \<lparr>sent = \<lparr>status = 400, payload = Text (js ''profile required'')\<rparr>,
        calls = [], body_after = req_body req\<rparr>"
    using np by (simp add: recommend_nested_def)
  have flat_reject: "status (sent (recommend_flat e req)) = 400
        \<and> calls (recommend_flat e req) = []
        \<and> body_after (recommend_flat e req) = req_body req"
    if "\<not> nullish (req_body req)"
       "\<not> (truthy (get (req_body req) (js ''age''))
              \<and> truthy (get (req_body req) (js ''reading_level'')))"
    using that np by (auto simp: recommend_flat_def)
  have flat_accept: "status (sent (recommend_flat e req)) \<noteq> 400"
    if "\<not> nullish (req_body req)"
       "truthy (get (req_body req) (js ''age''))"
       "truthy (get (req_body req) (js ''reading_level''))"
  proof -
    from that(2) have "truthy (req_body req)"
      by (cases "req_body req") auto
    with that np show ?thesis
      by (auto simp: recommend_flat_def Let_def split: sum.splits prod.splits)
  qed
  from nested flat_reject flat_accept show ?thesis
    by auto
qed

theorem missing_profile_rejected_witness:
  "recommend_nested mock_env (post (Obj [(js ''max_results_per_category'', Num 2)])) =
       \<lparr>sent = \<lparr>status = 400, payload = Text (js ''profile required'')\<rparr>,
        calls = [], body_after = Obj [(js ''max_results_per_category'', Num 2)]\<rparr>
   \<and> status (sent (recommend_flat mock_env (post (Obj [(js ''max_results_per_category'', Num 2)])))) = 400
   \<and> calls (recommend_flat mock_env (post (Obj [(js ''max_results_per_category'', Num 2)]))) = []"
  using missing_profile_rejected [of "post (Obj [(js ''max_results_per_category'', Num 2)])" mock_env]
  by (simp add: post_def js_def nullish_def)

text \<open>
  C4 as stated fails in the flat variant: the body
  \<^verbatim>\<open>{"age": 8, "reading_level": "3"}\<close> has no \<^verbatim>\<open>profile\<close> field, and in mock mode the answer is 200
  after a call of the mock gateway.
\<close>

theorem flat_body_without_profile_accepted:
  "get (Obj [(js ''age'', Num 8), (js ''reading_level'', Str (js ''3''))]) (js ''profile'') = Undefined
   \<and> status (sent (recommend_flat mock_env
        (post (Obj [(js ''age'', Num 8), (js ''reading_level'', Str (js ''3''))])))) = 200
   \<and> calls (recommend_flat mock_env
        (post (Obj [(js ''age'', Num 8), (js ''reading_level'', Str (js ''3''))]))) = [Mock_call]"
  by (simp add: recommend_flat_def post_def mock_env_def js_def nullish_def js_or_def
        exclude_titles_flat_def mockLLMResponse_flat_def sanitize_profile_flat_def Let_def)

text \<open>
  C10. In the flat variant a request with a body whose profile (\<^verbatim>\<open>req.body.profile\<close>, or the
  body itself) has no truthy \<^verbatim>\<open>age\<close> or no truthy \<^verbatim>\<open>reading_level\<close> is answered 400; no
  gateway is called and nothing of the body has been sanitized.
\<close>

theorem flat_requires_age_and_reading_level:
  "\<not> nullish (req_body req) \<Longrightarrow>
   profile = js_or (get (req_body req) (js ''profile'')) (req_body req) \<Longrightarrow>
   \<not> truthy (get profile (js ''age'')) \<or> \<not> truthy (get profile (js ''reading_level'')) \<Longrightarrow>
   recommend_flat e req =
     \<lparr>sent = \<lparr>status = 400,
              payload = Json (Obj [(js ''error'',
                Str (js ''Invalid request. Required fields: age, reading_level''))])\<rparr>,
      calls = [], body_after = req_body req\<rparr>"
  by (auto simp: recommend_flat_def Let_def)

theorem flat_requires_age_and_reading_level_witness:
  "recommend_flat mock_env
     (post (Obj [(js ''profile'', Obj [(js ''age'', Num 0), (js ''reading_level'', Str (js ''3''))])])) =
     \<lparr>sent = \<lparr>status = 400,
              payload = Json (Obj [(js ''error'',
                Str (js ''Invalid request. Required fields: age, reading_level''))])\<rparr>,
      calls = [],
      body_after = Obj [(js ''profile'', Obj [(js ''age'', Num 0), (js ''reading_level'', Str (js ''3''))])]\<rparr>
   \<and> recommend_flat mock_env
     (post (Obj [(js ''age'', Num 8), (js ''reading_level'', Str [])])) =
     \<lparr>sent = \<lparr>status = 400,
              payload = Json (Obj [(js ''error'',
                Str (js ''Invalid request. Required fields: age, reading_level''))])\<rparr>,
      calls = [],
      body_after = Obj [(js ''age'', Num 8), (js ''reading_level'', Str [])]\<rparr>"
  using flat_requires_age_and_reading_level
      [of "post (Obj [(js ''profile'', Obj [(js ''age'', Num 0), (js ''reading_level'', Str (js ''3''))])])"
          "Obj [(js ''age'', Num 0), (js ''reading_level'', Str (js ''3''))]" mock_env]
    flat_requires_age_and_reading_level
      [of "post (Obj [(js ''age'', Num 8), (js ''reading_level'', Str [])])"
          "Obj [(js ''age'', Num 8), (js ''reading_level'', Str [])]" mock_env]
  by (simp add: post_def js_def nullish_def js_or_def)

section \<open>A remote response without text\<close>

lemma truthy_not_nullish: "truthy v \<Longrightarrow> \<not> nullish v"
  by (auto simp: nullish_def)

lemma JSON_parse_empty: "JSON_parse [] = None"
  by (simp add: JSON_parse_def)

lemma parse_candidate_no_text: "\<not> truthy (candidate_text c) \<Longrightarrow> parse_candidate e c = None"
  by (auto simp: candidate_text_def parse_candidate_def Let_def JSON_parse_empty nullish_def
      split: if_splits jsval.splits)

lemma flat_chain_no_text:
  assumes "\<not> truthy (candidate_text c)"
  shows "\<not> truthy (get c (js ''content'')) \<or> \<not> truthy (get (get c (js ''content'')) (js ''parts''))
     \<or> \<not> truthy (index0 (get (get c (js ''content'')) (js ''parts'')))
     \<or> \<not> truthy (get (index0 (get (get c (js ''content'')) (js ''parts''))) (js ''text''))"
proof (rule ccontr)
  assume "\<not> ?thesis"
  then have t: "truthy (get c (js ''content''))"
      "truthy (get (get c (js ''content'')) (js ''parts''))"
      "truthy (index0 (get (get c (js ''content'')) (js ''parts'')))"
      "truthy (get (index0 (get (get c (js ''content'')) (js ''parts''))) (js ''text''))"
    by auto
  from t(1) have "\<not> nullish c"
    by (cases c) (auto simp: nullish_def)
  with t(1,2,3) have "candidate_text c = get (index0 (get (get c (js ''content'')) (js ''parts''))) (js ''text'')"
    by (simp add: candidate_text_def Let_def truthy_not_nullish)
  with assms t(4) show False
    by simp
qed

lemma callGemini_nested_no_text:
  assumes "\<not> USE_MOCK e" "axios_post e instr = Inr data" "no_candidate_text data"
  shows "\<exists>err evs. callGemini_nested e instr m profile = (Inl err, evs)"
proof (cases "get data (js ''candidates'')")
  case (Arr cs)
  show ?thesis
  proof (cases cs)
    case Nil
    with Arr assms show ?thesis
      by (auto simp: callGemini_nested_def split: option.splits)
  next
    case (Cons c cs')
    with Arr assms have "parse_candidate e c = None"
      by (simp add: no_candidate_text_def parse_candidate_no_text)
    with Arr Cons assms show ?thesis
      by (auto simp: callGemini_nested_def split: option.splits)
  qed
qed (use assms in \<open>auto simp: no_candidate_text_def\<close>)

lemma callGemini_flat_no_text:
  assumes "axios_post e (buildPrompt_flat profile m x seed) = Inr data" "no_candidate_text data"
  shows "\<exists>err evs. callGemini_flat e profile m x seed = (Inl err, evs)"
proof (cases "get data (js ''candidates'')")
  case (Arr cs)
  show ?thesis
  proof (cases cs)
    case Nil
    with Arr assms show ?thesis
      by (auto simp: callGemini_flat_def Let_def)
  next
    case (Cons c cs')
    with Arr assms have "\<not> truthy (candidate_text c)"
      by (simp add: no_candidate_text_def)
    from flat_chain_no_text [OF this] Arr Cons assms(1) show ?thesis
      by (auto simp: callGemini_flat_def Let_def)
  qed
qed (use assms in \<open>auto simp: no_candidate_text_def\<close>)

text \<open>
  C9. In live mode, when the remote response has an empty candidate list, or a first
  candidate without text or with an empty text, the live gateway of either variant throws
  an error, and the handler of either variant, which catches every exception, answers
  with a status that is not 200.
\<close>

theorem no_candidate_text_is_an_error:
  "\<not> USE_MOCK e \<Longrightarrow> axios_post e = (\<lambda>instr. Inr data) \<Longrightarrow> no_candidate_text data \<Longrightarrow>
   (\<exists>err. fst (callGemini_nested e instr m profile) = Inl err)
   \<and> (\<exists>err. fst (callGemini_flat e profile m x seed) = Inl err)
   \<and> status (sent (recommend_nested e req)) \<noteq> 200
   \<and> status (sent (recommend_flat e req)) \<noteq> 200"
proof -
  assume live: "\<not> USE_MOCK e" and post: "axios_post e = (\<lambda>instr. Inr data)"
    and nt: "no_candidate_text data"
  have n: "\<exists>err evs. callGemini_nested e i k p = (Inl err, evs)" for i k p
    using callGemini_nested_no_text [OF live _ nt] post by simp
  have f: "\<exists>err evs. callGemini_flat e p k y s = (Inl err, evs)" for p k y s
    using callGemini_flat_no_text [OF _ nt] post by simp
  have rn: "status (sent (recommend_nested e req)) \<noteq> 200"
  proof (cases "\<not> truthy (req_body req) \<or> \<not> truthy (get (req_body req) (js ''profile''))")
    case True
    then show ?thesis by (auto simp: recommend_nested_def)
  next
    case False
    obtain err evs where "callGemini_nested e
        (buildPrompt_nested (sanitize_profile_nested (get (req_body req) (js ''profile'')))
           (maxPerCategory_nested (req_body req)) (exclude_titles_nested (req_body req))
           (js_or (get (req_body req) (js ''seed'')) Null))
        (maxPerCategory_nested (req_body req))
        (sanitize_profile_nested (get (req_body req) (js ''profile''))) = (Inl err, evs)"
      using n by blast
    with False show ?thesis
      by (simp add: recommend_nested_def Let_def)
  qed
  have rf: "status (sent (recommend_flat e req)) \<noteq> 200"
  proof -
    have "status (sent (case callGemini_flat e p k y s of
              (Inl err, evs) \<Rightarrow> \<lparr>sent = \<lparr>status = 500, payload = Failure err\<rparr>, calls = evs, body_after = a\<rparr>
            | (Inr result, evs) \<Rightarrow> \<lparr>sent = \<lparr>status = 200, payload = Json result\<rparr>, calls = evs, body_after = a\<rparr>))
          \<noteq> 200" for p k y s a
      using f [of p k y s] by auto
    with live show ?thesis
      by (auto simp: recommend_flat_def Let_def split: sum.splits)
  qed
  from n [of instr m profile] f [of profile m x seed] rn rf show ?thesis
    by auto
qed

theorem no_candidate_text_is_an_error_witness:
  "fst (callGemini_nested (live_env (Obj [(js ''candidates'', Arr [])]))
          (Instruction Null (Num 5) (Arr []) None) (Num 5) (Obj []))
     = Inl (Error (js ''Invalid response from Gemini''))
   \<and> fst (callGemini_flat (live_env (Obj [(js ''candidates'', Arr [])]))
          (Obj []) (Num 3) (Arr []) (Str (js ''1b4e28ba'')))
     = Inl (Error (js ''Invalid response from Gemini API''))
   \<and> status (sent (recommend_nested (live_env (Obj [(js ''candidates'', Arr [])]))
        (post (Obj [(js ''profile'', Obj [(js ''age'', Num 8)])])))) = 500
   \<and> status (sent (recommend_flat (live_env (Obj [(js ''candidates'', Arr [])]))
        (post (Obj [(js ''age'', Num 8), (js ''reading_level'', Str (js ''3''))])))) = 500"
proof -
  have h: "\<not> USE_MOCK (live_env (Obj [(js ''candidates'', Arr [])]))"
     "axios_post (live_env (Obj [(js ''candidates'', Arr [])])) = (\<lambda>instr. Inr (Obj [(js ''candidates'', Arr [])]))"
     "no_candidate_text (Obj [(js ''candidates'', Arr [])])"
    by (simp_all add: live_env_def no_candidate_text_def)
  have a: "fst (callGemini_nested (live_env (Obj [(js ''candidates'', Arr [])]))
          (Instruction Null (Num 5) (Arr []) None) (Num 5) (Obj []))
     = Inl (Error (js ''Invalid response from Gemini''))"
    by (simp add: callGemini_nested_def live_env_def js_def trim_def is_space_def)
  have b: "fst (callGemini_flat (live_env (Obj [(js ''candidates'', Arr [])]))
          (Obj []) (Num 3) (Arr []) (Str (js ''1b4e28ba'')))
     = Inl (Error (js ''Invalid response from Gemini API''))"
    by (simp add: callGemini_flat_def live_env_def js_def nullish_def Let_def)
  have c: "status (sent (recommend_nested (live_env (Obj [(js ''candidates'', Arr [])]))
        (post (Obj [(js ''profile'', Obj [(js ''age'', Num 8)])])))) = 500"
    by (simp add: recommend_nested_def post_def Let_def js_def callGemini_nested_def
          live_env_def trim_def is_space_def)
  have d: "status (sent (recommend_flat (live_env (Obj [(js ''candidates'', Arr [])]))
        (post (Obj [(js ''age'', Num 8), (js ''reading_level'', Str (js ''3''))])))) = 500"
    by (simp add: recommend_flat_def post_def Let_def js_def nullish_def js_or_def
          exclude_titles_flat_def callGemini_flat_def live_env_def sanitize_profile_flat_def)
  from a b c d
    no_candidate_text_is_an_error [OF h,
      where req = "post (Obj [(js ''profile'', Obj [(js ''age'', Num 8)])])"]
  show ?thesis by simp
qed

section \<open>Model output that is no valid result\<close>


lemma get_defined_Obj: "get v k \<noteq> Undefined \<Longrightarrow> \<exists>kvs. v = Obj kvs"
  by (cases v) auto

lemma index0_defined_truthy: "index0 v \<noteq> Undefined \<Longrightarrow> truthy v"
  by (cases v) (auto split: list.splits)

lemma response_text_Str:
  assumes "response_text data = Str t"
  shows "truthy data" "truthy (get data (js ''candidates''))"
    "truthy (index0 (get data (js ''candidates'')))"
    "candidate_text (index0 (get data (js ''candidates''))) = Str t"
proof -
  from assms have ct: "candidate_text (index0 (get data (js ''candidates''))) = Str t"
    and nn: "\<not> nullish (get data (js ''candidates''))"
    by (auto simp: response_text_def split: if_splits)
  from nn have "get data (js ''candidates'') \<noteq> Undefined"
    by (simp add: nullish_def)
  then show "truthy data"
    using get_defined_Obj by fastforce
  from ct have c: "\<not> nullish (index0 (get data (js ''candidates'')))"
      "get (index0 (get data (js ''candidates''))) (js ''content'') \<noteq> Undefined"
    by (auto simp: candidate_text_def nullish_def Let_def split: if_splits)
  from c(2) show "truthy (index0 (get data (js ''candidates'')))"
    using get_defined_Obj by fastforce
  from c(1) show "truthy (get data (js ''candidates''))"
    by (simp add: nullish_def index0_defined_truthy)
  from ct show "candidate_text (index0 (get data (js ''candidates''))) = Str t" .
qed




lemma response_text_text_response: "response_text (text_response t) = Str t"
  by (simp add: response_text_def text_response_def candidate_text_def nullish_def js_def)




section \<open>The mock gateways\<close>















section \<open>The maximum per category\<close>







section \<open>What is sanitized\<close>














section \<open>Markdown fences\<close>

lemma fence_codes: "js ''```'' = [0x60, 0x60, 0x60]" "js ''``'' = [0x60, 0x60]"
  "js ''```json'' = [0x60, 0x60, 0x60, 0x6a, 0x73, 0x6f, 0x6e]"
  "js ''json'' = [0x6a, 0x73, 0x6f, 0x6e]"
  by (simp_all add: js_def)

lemma split_from_absent:
  "\<not> str_includes s sep \<Longrightarrow> split_from sep acc s = [rev acc @ s]"
proof (induction s arbitrary: acc)
  case Nil
  then show ?case by (simp add: split_from.simps)
next
  case (Cons c s)
  then show ?case by (subst split_from.simps) simp
qed

text \<open>
  A fence that starts inside \<open>c # j\<close>, in front of a closing fence, starts inside
  \<open>c # j\<close> followed by two backticks.
\<close>

lemma fence_start_inside:
  assumes "starts_with ((c # j) @ js ''```'' @ r) (js ''```'')"
  shows "starts_with ((c # j) @ js ''``'') (js ''```'')"
proof (cases j)
  case Nil
  with assms show ?thesis by (simp add: fence_codes starts_with_def)
next
  case (Cons x xs)
  with assms show ?thesis by (cases xs) (simp_all add: fence_codes starts_with_def)
qed

lemma fence_json_start_inside:
  assumes "starts_with ((c # j) @ js ''```'' @ r) (js ''```json'')"
  shows "starts_with ((c # j) @ js ''``'') (js ''```'')"
proof (cases j)
  case Nil
  with assms show ?thesis by (simp add: fence_codes starts_with_def)
next
  case (Cons x xs)
  with assms show ?thesis by (cases xs) (simp_all add: fence_codes starts_with_def)
qed

lemma split_from_closing_fence:
  "\<not> str_includes (j @ js ''``'') (js ''```'') \<Longrightarrow>
   split_from (js ''```'') acc (j @ js ''```'' @ r) = (rev acc @ j) # split_from (js ''```'') [] r"
proof (induction j arbitrary: acc)
  case Nil
  show ?case
    by (subst split_from.simps) (simp add: fence_codes starts_with_def)
next
  case (Cons c j)
  from Cons.prems have "\<not> starts_with ((c # j) @ js ''``'') (js ''```'')"
    and rest: "\<not> str_includes (j @ js ''``'') (js ''```'')"
    by simp_all
  then have "\<not> starts_with ((c # j) @ js ''```'' @ r) (js ''```'')"
    using fence_start_inside by blast
  then have "split_from (js ''```'') acc ((c # j) @ js ''```'' @ r)
      = split_from (js ''```'') (c # acc) (j @ js ''```'' @ r)"
    by (subst split_from.simps) simp
  with Cons.IH [OF rest] show ?case
    by simp
qed

lemma no_fence_json_inside:
  "\<not> str_includes (j @ js ''``'') (js ''```'') \<Longrightarrow> \<not> str_includes (j @ js ''```'') (js ''```json'')"
proof (induction j)
  case Nil
  show ?case by (simp add: fence_codes starts_with_def)
next
  case (Cons c j)
  from Cons.prems have "\<not> starts_with ((c # j) @ js ''``'') (js ''```'')"
    and rest: "\<not> str_includes (j @ js ''``'') (js ''```'')"
    by simp_all
  then have "\<not> starts_with ((c # j) @ js ''```'' @ []) (js ''```json'')"
    using fence_json_start_inside by blast
  with Cons.IH [OF rest] show ?case
    by simp
qed

lemma no_fence_inside:
  "\<not> str_includes (j @ js ''``'') (js ''```'') \<Longrightarrow> \<not> str_includes j (js ''```'')"
proof (induction j)
  case Nil
  show ?case by (simp add: fence_codes)
next
  case (Cons c j)
  have "starts_with ((c # j) @ js ''``'') (js ''```'')" if "starts_with (c # j) (js ''```'')"
    using that by (cases j; cases "tl j") (auto simp: fence_codes starts_with_def)
  with Cons show ?case
    by auto
qed


lemma starts_with_append: "starts_with s (p @ q) \<Longrightarrow> starts_with s p"
proof -
  assume "starts_with s (p @ q)"
  then have a: "take (length (p @ q)) s = p @ q"
    by (simp add: starts_with_def)
  have "take (length p) s = take (length p) (take (length (p @ q)) s)"
    by (simp add: min_def)
  also have "\<dots> = p"
    by (simp only: a) simp
  finally show ?thesis
    by (simp add: starts_with_def)
qed

lemma fence_json_includes_fence: "str_includes s (js ''```json'') \<Longrightarrow> str_includes s (js ''```'')"
proof (induction s)
  case Nil
  then show ?case by (simp add: fence_codes)
next
  case (Cons c s)
  have "js ''```json'' = js ''```'' @ js ''json''"
    by (simp add: js_def)
  then have "starts_with (c # s) (js ''```'')" if "starts_with (c # s) (js ''```json'')"
    using that starts_with_append by metis
  with Cons show ?case
    by auto
qed

lemma extract_json_plain: "\<not> str_includes t (js ''```'') \<Longrightarrow> extract_json t = Inr t"
  using fence_json_includes_fence by (auto simp: extract_json_def)

lemma extract_json_fenced_json:
  assumes "\<not> str_includes (j @ js ''``'') (js ''```'')"
  shows "extract_json (js ''```json'' @ j @ js ''```'') = Inr (trim j)"
proof -
  have inc: "str_includes (js ''```json'' @ j @ js ''```'') (js ''```json'')"
    by (simp add: fence_codes starts_with_def)
  have "split_from (js ''```json'') [] (js ''```json'' @ j @ js ''```'')
      = [] # split_from (js ''```json'') [] (j @ js ''```'')"
    by (subst split_from.simps) (simp add: fence_codes starts_with_def)
  also have "split_from (js ''```json'') [] (j @ js ''```'') = [j @ js ''```'']"
    using no_fence_json_inside [OF assms] by (simp add: split_from_absent)
  finally have outer: "split (js ''```json'' @ j @ js ''```'') (js ''```json'') = [[], j @ js ''```'']"
    by (simp add: split_def fence_codes)
  have "split_from (js ''```'') [] (j @ js ''```'' @ []) = j # split_from (js ''```'') [] []"
    using split_from_closing_fence [OF assms, of "[]" "[]"] by simp
  then have inner: "split (j @ js ''```'') (js ''```'') = [j, []]"
    by (simp add: split_def fence_codes split_from.simps)
  from inc outer inner show ?thesis
    by (simp add: extract_json_def between_fences_def)
qed

lemma extract_json_fenced:
  assumes "\<not> str_includes (j @ js ''``'') (js ''```'')" "\<not> starts_with j (js ''json'')"
    "\<not> starts_with j [0x60]"
  shows "extract_json (js ''```'' @ j @ js ''```'') = Inr (trim j)"
proof -
  have "\<not> starts_with ([0x60, 0x60, 0x60] @ j @ js ''```'') (js ''```json'')"
    "\<not> starts_with ([0x60, 0x60] @ j @ js ''```'') (js ''```json'')"
    "\<not> starts_with ([0x60] @ j @ js ''```'') (js ''```json'')"
    using assms(2,3)
    by (cases j; cases "tl j"; cases "tl (tl j)"; cases "tl (tl (tl j))";
        auto simp: fence_codes starts_with_def)+
  with no_fence_json_inside [OF assms(1)]
  have ninc: "\<not> str_includes (js ''```'' @ j @ js ''```'') (js ''```json'')"
    by (simp add: fence_codes)
  have inc: "str_includes (js ''```'' @ j @ js ''```'') (js ''```'')"
    by (simp add: fence_codes starts_with_def)
  have "split_from (js ''```'') [] (js ''```'' @ j @ js ''```'')
      = [] # split_from (js ''```'') [] (j @ js ''```'' @ [])"
    by (subst split_from.simps) (simp add: fence_codes starts_with_def)
  also have "split_from (js ''```'') [] (j @ js ''```'' @ []) = j # split_from (js ''```'') [] []"
    using split_from_closing_fence [OF assms(1), of "[]" "[]"] by simp
  finally have outer: "split (js ''```'' @ j @ js ''```'') (js ''```'') = [[], j, []]"
    by (simp add: split_def fence_codes split_from.simps)
  have inner: "split j (js ''```'') = [j]"
    using no_fence_inside [OF assms(1)] by (simp add: split_def fence_codes split_from_absent)
  from ninc inc outer inner show ?thesis
    by (simp add: extract_json_def between_fences_def)
qed

text \<open>
  White space and the backtick are no part of a JSON token other than a string, and end no
  escape sequence.
\<close>

lemma space_codes:
  assumes "is_space c \<or> c = 0x60"
  shows "c \<in> {0x20, 0x09, 0x0a, 0x0d} \<or>
         (c \<notin> {0x20, 0x09, 0x0a, 0x0d, 0x7b, 0x7d, 0x5b, 0x5d, 0x3a, 0x2c, 0x22, 0x2d, 0x74, 0x66, 0x6e}
          \<and> \<not> is_digit c)"
    "c \<noteq> 0x22" "c \<noteq> 0x5c" "\<not> is_num_char c" "digit_val 16 c = None"
    "c \<notin> set (js ''true'')" "c \<notin> set (js ''false'')" "c \<notin> set (js ''null'')"
  using assms
  by (auto simp: is_space_def is_digit_def is_num_char_def digit_val_def js_def word_le_nat_alt)


lemma starts_with_snoc:
  assumes "c \<notin> set p"
  shows "starts_with (s @ [c]) p = starts_with s p"
proof (cases "length p \<le> length s")
  case True
  then show ?thesis by (simp add: starts_with_def)
next
  case False
  then have short: "length s < length p"
    by simp
  then have "\<not> starts_with s p"
    by (auto simp: starts_with_def)
  moreover have "\<not> starts_with (s @ [c]) p"
  proof
    assume "starts_with (s @ [c]) p"
    with short have "s @ [c] = p"
      by (simp add: starts_with_def)
    with assms show False
      by auto
  qed
  ultimately show ?thesis
    by simp
qed

lemma starts_with_length: "starts_with s p \<Longrightarrow> length p \<le> length s"
proof -
  assume "starts_with s p"
  then have "length (take (length p) s) = length p"
    by (simp add: starts_with_def)
  then show ?thesis
    by simp
qed

lemma lex_string_snoc:
  "is_space c \<or> c = 0x60 \<Longrightarrow>
   lex_string (s @ [c]) =
     (case lex_string s of None \<Rightarrow> None | Some (str, rest) \<Rightarrow> Some (str, rest @ [c]))"
proof (induction s rule: lex_string.induct)
  case 1
  then show ?case
    by (simp add: space_codes cons_char_def)
next
  case (2 a r)
  note sp = space_codes [OF "2.prems"]
  show ?case
  proof (cases "a = 0x22 \<or> a < 0x20")
    case True
    then show ?thesis by auto
  next
    case False
    note plain = this
    show ?thesis
    proof (cases "a = 0x5c")
      case False
      with plain "2.IH"(3) [OF _ _ _ "2.prems"] show ?thesis
        by (auto simp: cons_char_def split: option.splits)
    next
      case True
      show ?thesis
      proof (cases r)
        case Nil
        with True plain "2.prems" sp show ?thesis
          by (auto simp: escape_char_def is_space_def)
      next
        case (Cons e r')
        show ?thesis
        proof (cases "e = 0x75")
          case False
          with True plain Cons "2.IH"(2) [OF _ _ _ Cons _ _ "2.prems"] show ?thesis
            by (auto simp: cons_char_def split: option.splits)
        next
          case u: True
          show ?thesis
          proof (cases "4 \<le> length r'")
            case long: True
            then have "take 4 (r' @ [c]) = take 4 r'" "drop 4 (r' @ [c]) = drop 4 r' @ [c]"
              by simp_all
            with True plain Cons u long "2.IH"(1) [OF _ _ _ Cons u _ "2.prems"] show ?thesis
              by (auto simp: cons_char_def split: option.splits)
          next
            case short: False
            then have "take 4 (r' @ [c]) = r' @ [c]"
              by simp
            then have "\<not> all_digits 16 (take 4 (r' @ [c]))"
              using sp(5) by (simp add: all_digits_def)
            with True plain Cons u short show ?thesis
              by simp
          qed
        qed
      qed
    qed
  qed
qed


lemma tcons_Some: "tcons t res = Some ts \<longleftrightarrow> (\<exists>ts'. res = Some ts' \<and> ts = t # ts')"
  by (cases res) (auto simp: tcons_def)

lemma lex_snoc_space:
  "is_space c \<or> c = 0x60 \<Longrightarrow> lex (s @ [c]) = Some ts \<Longrightarrow>
   lex s = Some ts \<and> c \<in> {0x20, 0x09, 0x0a, 0x0d}"
proof (induction s arbitrary: ts rule: lex.induct)
  case 1
  from space_codes(1) [OF "1.prems"(1)] "1.prems"(2) show ?case
    by (auto simp: starts_with_def js_def tcons_def json_number_def split: if_splits)
next
  case (2 a r)
  note sp = space_codes [OF "2.prems"(1)]
  note c = "2.prems"(1)
  have tw: "takeWhile is_num_char (r @ [c]) = takeWhile is_num_char r"
    "dropWhile is_num_char (r @ [c]) = dropWhile is_num_char r @ [c]"
    using sp(4) by (simp_all add: takeWhile_tail dropWhile_append3)
  have lit: "starts_with (a # r @ [c]) (js ''true'') = starts_with (a # r) (js ''true'')"
    "starts_with (a # r @ [c]) (js ''false'') = starts_with (a # r) (js ''false'')"
    "starts_with (a # r @ [c]) (js ''null'') = starts_with (a # r) (js ''null'')"
    using starts_with_snoc [of c _ "a # r"] sp(6,7,8) by simp_all
  have d3: "drop 3 (r @ [c]) = drop 3 r @ [c]" if "starts_with (a # r) (js ''true'')"
    using starts_with_length [OF that] by (simp add: js_def)
  have d4: "drop 4 (r @ [c]) = drop 4 r @ [c]" if "starts_with (a # r) (js ''false'')"
    using starts_with_length [OF that] by (simp add: js_def)
  have d3': "drop 3 (r @ [c]) = drop 3 r @ [c]" if "starts_with (a # r) (js ''null'')"
    using starts_with_length [OF that] by (simp add: js_def)
  from "2.prems"(2) have l: "lex (a # r @ [c]) = Some ts"
    by simp
  show ?case
  proof (cases "a \<in> {0x20, 0x09, 0x0a, 0x0d}")
    case True
    with l have "lex (r @ [c]) = Some ts"
      by simp
    from "2.IH"(1) [OF True c this] True show ?thesis
      by simp
  next
    case ws: False
    show ?thesis
    proof (cases "a = 0x7b")
      case True
      with ws l obtain ts' where t: "lex (r @ [c]) = Some ts'" "ts = TLBrace # ts'"
        by (auto simp: tcons_Some)
      from "2.IH"(2) [OF ws True c t(1)] ws True t(2) show ?thesis
        by (simp add: tcons_Some)
    next
      case n1: False
      show ?thesis
      proof (cases "a = 0x7d")
        case True
        with ws n1 l obtain ts' where t: "lex (r @ [c]) = Some ts'" "ts = TRBrace # ts'"
          by (auto simp: tcons_Some)
        from "2.IH"(3) [OF ws n1 True c t(1)] ws n1 True t(2) show ?thesis
          by (simp add: tcons_Some)
      next
        case n2: False
        show ?thesis
        proof (cases "a = 0x5b")
          case True
          with ws n1 n2 l obtain ts' where t: "lex (r @ [c]) = Some ts'" "ts = TLBrack # ts'"
            by (auto simp: tcons_Some)
          from "2.IH"(4) [OF ws n1 n2 True c t(1)] ws n1 n2 True t(2) show ?thesis
            by (simp add: tcons_Some)
        next
          case n3: False
          show ?thesis
          proof (cases "a = 0x5d")
            case True
            with ws n1 n2 n3 l obtain ts' where t: "lex (r @ [c]) = Some ts'" "ts = TRBrack # ts'"
              by (auto simp: tcons_Some)
            from "2.IH"(5) [OF ws n1 n2 n3 True c t(1)] ws n1 n2 n3 True t(2) show ?thesis
              by (simp add: tcons_Some)
          next
            case n4: False
            show ?thesis
            proof (cases "a = 0x3a")
              case True
              with ws n1 n2 n3 n4 l obtain ts' where t: "lex (r @ [c]) = Some ts'" "ts = TColon # ts'"
                by (auto simp: tcons_Some)
              from "2.IH"(6) [OF ws n1 n2 n3 n4 True c t(1)] ws n1 n2 n3 n4 True t(2) show ?thesis
                by (simp add: tcons_Some)
            next
              case n5: False
              show ?thesis
              proof (cases "a = 0x2c")
                case True
                with ws n1 n2 n3 n4 n5 l obtain ts' where
                  t: "lex (r @ [c]) = Some ts'" "ts = TComma # ts'"
                  by (auto simp: tcons_Some)
                from "2.IH"(7) [OF ws n1 n2 n3 n4 n5 True c t(1)] ws n1 n2 n3 n4 n5 True t(2)
                show ?thesis
                  by (simp add: tcons_Some)
              next
                case n6: False
                note np = ws n1 n2 n3 n4 n5 n6
                show ?thesis
                proof (cases "a = 0x22")
                  case True
                  with np l obtain str rest where
                    str: "lex_string (r @ [c]) = Some (str, rest)"
                    and rest: "tcons (TStr str) (lex rest) = Some ts"
                    by (simp split: option.splits prod.splits)
                  from str obtain rest' where r': "lex_string r = Some (str, rest')" "rest = rest' @ [c]"
                    by (auto simp: lex_string_snoc [OF c] split: option.splits)
                  from rest r'(2) obtain ts' where
                    ts': "lex (rest' @ [c]) = Some ts'" "ts = TStr str # ts'"
                    by (auto simp: tcons_Some)
                  from "2.IH"(8) [OF np True r'(1) refl c ts'(1)] np True r'(1) ts'(2)
                  show ?thesis
                    by (simp add: tcons_Some)
                next
                  case quote: False
                  show ?thesis
                  proof (cases "a = 0x2d \<or> is_digit a")
                    case True
                    with np quote l tw obtain x ts' where
                      x: "json_number (a # takeWhile is_num_char r) = Some x"
                      and ts': "lex (dropWhile is_num_char r @ [c]) = Some ts'" "ts = TVal (Num x) # ts'"
                      by (simp add: tcons_Some split: option.splits) blast
                    from "2.IH"(9) [OF np quote True x c ts'(1)] np quote True x ts'(2)
                    show ?thesis
                      by (simp add: tcons_Some)
                  next
                    case num: False
                    note nq = np quote num
                    show ?thesis
                    proof (cases "starts_with (a # r) (js ''true'')")
                      case True
                      with nq l lit d3 obtain ts' where
                        t: "lex (drop 3 r @ [c]) = Some ts'" "ts = TVal (Bool True) # ts'"
                        by (simp add: tcons_Some) blast
                      from "2.IH"(10) [OF nq True c t(1)] nq True t(2) show ?thesis
                        by (simp add: tcons_Some)
                    next
                      case nt: False
                      show ?thesis
                      proof (cases "starts_with (a # r) (js ''false'')")
                        case True
                        with nq nt l lit d4 obtain ts' where
                          t: "lex (drop 4 r @ [c]) = Some ts'" "ts = TVal (Bool False) # ts'"
                          by (simp add: tcons_Some) blast
                        from "2.IH"(11) [OF nq nt True c t(1)] nq nt True t(2) show ?thesis
                          by (simp add: tcons_Some)
                      next
                        case nf: False
                        show ?thesis
                        proof (cases "starts_with (a # r) (js ''null'')")
                          case True
                          with nq nt nf l lit d3' obtain ts' where
                            t: "lex (drop 3 r @ [c]) = Some ts'" "ts = TVal Null # ts'"
                            by (simp add: tcons_Some) blast
                          from "2.IH"(12) [OF nq nt nf True c t(1)] nq nt nf True t(2) show ?thesis
                            by (simp add: tcons_Some)
                        next
                          case False
                          with nq nt nf l lit show ?thesis
                            by simp
                        qed
                      qed
                    qed
                  qed
                qed
              qed
            qed
          qed
        qed
      qed
    qed
  qed
qed


lemma lex_leading_space: "lex s = Some ts \<Longrightarrow> lex (dropWhile is_space s) = Some ts"
proof (induction s)
  case Nil
  then show ?case by simp
next
  case (Cons a s)
  show ?case
  proof (cases "is_space a")
    case False
    with Cons.prems show ?thesis by simp
  next
    case True
    then have "is_space a \<or> a = 0x60"
      by simp
    from space_codes(1) [OF this] show ?thesis
    proof
      assume "a \<in> {0x20, 0x09, 0x0a, 0x0d}"
      with Cons True show ?thesis
        by simp
    next
      assume "a \<notin> {0x20, 0x09, 0x0a, 0x0d, 0x7b, 0x7d, 0x5b, 0x5d, 0x3a, 0x2c, 0x22, 0x2d, 0x74, 0x66, 0x6e}
          \<and> \<not> is_digit a"
      then have "lex (a # s) = None"
        by (simp add: starts_with_def js_def)
      with Cons.prems show ?thesis
        by simp
    qed
  qed
qed

lemma lex_trailing_space: "lex s = Some ts \<Longrightarrow> lex (rev (dropWhile is_space (rev s))) = Some ts"
proof (induction s rule: rev_induct)
  case Nil
  then show ?case by simp
next
  case (snoc c s)
  show ?case
  proof (cases "is_space c")
    case True
    from lex_snoc_space [OF _ snoc.prems] True have "lex s = Some ts"
      by simp
    from snoc.IH [OF this] True show ?thesis
      by simp
  next
    case False
    with snoc.prems show ?thesis
      by simp
  qed
qed

lemma JSON_parse_trim: "JSON_parse j = Some v \<Longrightarrow> JSON_parse (trim j) = Some v"
proof -
  assume p: "JSON_parse j = Some v"
  then obtain ts where ts: "lex j = Some ts"
    by (auto simp: JSON_parse_def split: option.splits)
  from lex_trailing_space [OF lex_leading_space [OF ts]] have "lex (trim j) = Some ts"
    by (simp add: trim_def)
  with p ts show ?thesis
    by (simp add: JSON_parse_def)
qed

lemma JSON_parse_first:
  assumes "JSON_parse j = Some v"
  shows "j \<noteq> []" "\<not> starts_with j (js ''json'')" "\<not> starts_with j [0x60]"
proof -
  from assms obtain ts where ts: "lex j = Some ts"
    by (auto simp: JSON_parse_def split: option.splits)
  from assms show "j \<noteq> []"
    by (auto simp: JSON_parse_def)
  from ts show "\<not> starts_with j (js ''json'')"
    by (cases j) (auto simp: starts_with_def js_def is_digit_def split: if_splits)
  from ts show "\<not> starts_with j [0x60]"
    by (cases j) (auto simp: starts_with_def js_def is_digit_def split: if_splits)
qed


lemma lex_no_trailing_backtick: "lex j = Some ts \<Longrightarrow> j \<noteq> [] \<Longrightarrow> last j \<noteq> 0x60"
proof
  assume l: "lex j = Some ts" and "j \<noteq> []" and "last j = 0x60"
  then have "j = butlast j @ [0x60]"
    by (metis append_butlast_last_id)
  with l have "lex (butlast j @ [0x60]) = Some ts"
    by simp
  from lex_snoc_space [OF _ this] show False
    by simp
qed

lemma no_fence_with_tail:
  "\<not> str_includes j (js ''```'') \<Longrightarrow> j = [] \<or> last j \<noteq> 0x60 \<Longrightarrow>
   \<not> str_includes (j @ js ''``'') (js ''```'')"
proof (induction j)
  case Nil
  show ?case by (simp add: fence_codes starts_with_def)
next
  case (Cons c j)
  from Cons.prems(1) have here: "\<not> starts_with (c # j) (js ''```'')"
    and later: "\<not> str_includes j (js ''```'')"
    by simp_all
  from Cons.prems(2) have tail: "j = [] \<or> last j \<noteq> 0x60"
    by auto
  have "\<not> starts_with ((c # j) @ js ''``'') (js ''```'')"
  proof (cases j)
    case Nil
    with Cons.prems(2) show ?thesis by (simp add: fence_codes starts_with_def)
  next
    case (Cons x xs)
    with here Cons.prems(2) show ?thesis
      by (cases xs) (auto simp: fence_codes starts_with_def)
  qed
  with Cons.IH [OF later tail] show ?case
    by simp
qed

lemma parse_text_flat_fenced:
  assumes "JSON_parse j = Some v" "\<not> str_includes j (js ''```'')"
  shows "parse_text_flat (Str (js ''```json'' @ j @ js ''```'')) = Inr v"
    "parse_text_flat (Str (js ''```'' @ j @ js ''```'')) = Inr v"
    "parse_text_flat (Str j) = Inr v"
proof -
  from assms(1) obtain ts where "lex j = Some ts"
    by (auto simp: JSON_parse_def split: option.splits)
  from lex_no_trailing_backtick [OF this] have "j = [] \<or> last j \<noteq> 0x60"
    by blast
  from no_fence_with_tail [OF assms(2) this]
  have clean: "\<not> str_includes (j @ js ''``'') (js ''```'')" .
  from JSON_parse_trim [OF assms(1)] have t: "parse_json_flat (trim j) = Inr v"
    by (simp add: parse_json_flat_def)
  from t extract_json_fenced_json [OF clean]
  show "parse_text_flat (Str (js ''```json'' @ j @ js ''```'')) = Inr v"
    by (simp add: parse_text_flat_def)
  from t extract_json_fenced [OF clean JSON_parse_first(2,3) [OF assms(1)]]
  show "parse_text_flat (Str (js ''```'' @ j @ js ''```'')) = Inr v"
    by (simp add: parse_text_flat_def)
  from assms extract_json_plain [OF assms(2)] show "parse_text_flat (Str j) = Inr v"
    by (simp add: parse_text_flat_def parse_json_flat_def)
qed

lemma callGemini_flat_text:
  assumes "GEMINI_API_KEY e = Some key" "key \<noteq> []" "\<not> nullish profile"
    "axios_post e (buildPrompt_flat profile m x seed) = Inr data"
    "response_text data = Str t" "t \<noteq> []"
  shows "fst (callGemini_flat e profile m x seed) = parse_text_flat (Str t)"
proof -
  note r = response_text_Str [OF assms(5)]
  let ?c = "index0 (get data (js ''candidates''))"
  from r(4) have steps: "\<not> nullish (get ?c (js ''content''))"
    "\<not> nullish (get (get ?c (js ''content'')) (js ''parts''))"
    "\<not> nullish (index0 (get (get ?c (js ''content'')) (js ''parts'')))"
    "get (index0 (get (get ?c (js ''content'')) (js ''parts''))) (js ''text'') = Str t"
    by (auto simp: candidate_text_def Let_def split: if_splits)
  from steps(2) have "truthy (get ?c (js ''content''))"
    using get_defined_Obj [of "get ?c (js ''content'')" "js ''parts''"]
    by (auto simp: nullish_def)
  moreover from steps(3) have "truthy (get (get ?c (js ''content'')) (js ''parts''))"
    by (simp add: nullish_def index0_defined_truthy)
  moreover from steps(4) have "truthy (index0 (get (get ?c (js ''content'')) (js ''parts'')))"
    using get_defined_Obj [of "index0 (get (get ?c (js ''content'')) (js ''parts''))" "js ''text''"]
    by auto
  ultimately show ?thesis
    using assms r(1-3) steps(4)
    by (simp add: callGemini_flat_def Let_def)
qed

text \<open>
  C3, as amended, for the flat variant, whose gateway is the one that strips fences. For
  every JSON document \<open>j\<close> (a text that \<^verbatim>\<open>JSON.parse\<close> accepts) that contains no run of three
  backticks, the gateway returns the parsed document when the text of the first candidate
  is \<open>j\<close> between \<^verbatim>\<open>```json\<close> and \<^verbatim>\<open>```\<close>, when it is \<open>j\<close> between \<^verbatim>\<open>```\<close> and \<^verbatim>\<open>```\<close>, and when
  it is \<open>j\<close> itself.
\<close>

theorem fenced_json_parses_like_unfenced:
  "JSON_parse j = Some v \<Longrightarrow> \<not> str_includes j (js ''```'') \<Longrightarrow>
   GEMINI_API_KEY e = Some key \<Longrightarrow> key \<noteq> [] \<Longrightarrow> \<not> nullish profile \<Longrightarrow>
   response_text fenced_json = Str (js ''```json'' @ j @ js ''```'') \<Longrightarrow>
   response_text fenced = Str (js ''```'' @ j @ js ''```'') \<Longrightarrow>
   response_text plain = Str j \<Longrightarrow>
   fst (callGemini_flat (e\<lparr>axios_post := \<lambda>instr. Inr fenced_json\<rparr>) profile m x seed) = Inr v
   \<and> fst (callGemini_flat (e\<lparr>axios_post := \<lambda>instr. Inr fenced\<rparr>) profile m x seed) = Inr v
   \<and> fst (callGemini_flat (e\<lparr>axios_post := \<lambda>instr. Inr plain\<rparr>) profile m x seed) = Inr v"
proof -
  assume j: "JSON_parse j = Some v" "\<not> str_includes j (js ''```'')"
    and k: "GEMINI_API_KEY e = Some key" "key \<noteq> []" and p: "\<not> nullish profile"
    and r: "response_text fenced_json = Str (js ''```json'' @ j @ js ''```'')"
      "response_text fenced = Str (js ''```'' @ j @ js ''```'')"
      "response_text plain = Str j"
  have call: "fst (callGemini_flat (e\<lparr>axios_post := \<lambda>instr. Inr data\<rparr>) profile m x seed)
      = parse_text_flat (Str t)" if "response_text data = Str t" "t \<noteq> []" for data t
    using callGemini_flat_text [of "e\<lparr>axios_post := \<lambda>instr. Inr data\<rparr>" key profile m x seed data t]
      k p that by simp
  from call [OF r(1)] call [OF r(2)] call [OF r(3)] parse_text_flat_fenced [OF j]
    JSON_parse_first(1) [OF j(1)]
  show ?thesis
    by (simp add: fence_codes)
qed

theorem fenced_json_parses_like_unfenced_witness:
  "fst (callGemini_flat
     ((live_env Null)\<lparr>axios_post := \<lambda>instr. Inr (text_response
        (js ''```json'' @ ([0x0a] @ js ''[1, 2]'' @ [0x0a]) @ js ''```''))\<rparr>)
     (Obj []) (Num 3) (Arr []) (Str (js ''1b4e28ba''))) = Inr (Arr [Num 1, Num 2])
   \<and> fst (callGemini_flat
     ((live_env Null)\<lparr>axios_post := \<lambda>instr. Inr (text_response
        (js ''```'' @ ([0x0a] @ js ''[1, 2]'' @ [0x0a]) @ js ''```''))\<rparr>)
     (Obj []) (Num 3) (Arr []) (Str (js ''1b4e28ba''))) = Inr (Arr [Num 1, Num 2])
   \<and> fst (callGemini_flat
     ((live_env Null)\<lparr>axios_post := \<lambda>instr. Inr (text_response
        ([0x0a] @ js ''[1, 2]'' @ [0x0a]))\<rparr>)
     (Obj []) (Num 3) (Arr []) (Str (js ''1b4e28ba''))) = Inr (Arr [Num 1, Num 2])"
proof -
  have valid: "JSON_parse ([0x0a] @ js ''[1, 2]'' @ [0x0a]) = Some (Arr [Num 1, Num 2])"
    by code_simp
  have plain: "\<not> str_includes ([0x0a] @ js ''[1, 2]'' @ [0x0a]) (js ''```'')"
    by code_simp
  have process: "GEMINI_API_KEY (live_env Null) = Some (js ''secret'')" "js ''secret'' \<noteq> []"
    "\<not> nullish (Obj [])"
    by (simp_all add: live_env_def js_def nullish_def)
  from fenced_json_parses_like_unfenced [OF valid plain process
      response_text_text_response response_text_text_response response_text_text_response]
  show ?thesis
    by simp
qed

text \<open>
  C3 as stated fails in both variants. The nested gateway strips no fence: the document
  \<^verbatim>\<open>{}\<close> is parsed, its fenced form is not. The flat gateway cuts at the first triple
  backtick, also inside a document: the document \<^verbatim>\<open>["x```1```y"]\<close> without fence is read as
  its middle piece \<^verbatim>\<open>1\<close>, and its fenced form is cut off after \<^verbatim>\<open>["x\<close> and not parsed.
\<close>

theorem fence_not_always_stripped:
  "JSON_parse (js ''{}'') = Some (Obj [])
   \<and> fst (callGemini_nested (live_env (text_response (js ''```json'' @ js ''{}'' @ js ''```'')))
          (Instruction Null (Num 5) (Arr []) None) (Num 5) (Obj []))
       = Inl (Error (js ''Failed to parse Gemini response as JSON: ''))
   \<and> fst (callGemini_nested (live_env (text_response (js ''{}'')))
          (Instruction Null (Num 5) (Arr []) None) (Num 5) (Obj []))
       = Inr (Obj [(js ''metadata'',
                Obj [(js ''request_id'', Str (js ''1b4e28ba'')),
                     (js ''model'', Str (js ''gemini-pro'')),
                     (js ''timestamp'', Str (js ''2025-01-01T00:00:00.000Z''))])])
   \<and> JSON_parse (js ''[\"x```1```y\"]'') = Some (Arr [Str (js ''x```1```y'')])
   \<and> fst (callGemini_flat
          (live_env (text_response (js ''```json'' @ js ''[\"x```1```y\"]'' @ js ''```'')))
          (Obj []) (Num 3) (Arr []) (Str (js ''1b4e28ba'')))
       = Inl (Error (js ''Invalid JSON response from Gemini''))
   \<and> fst (callGemini_flat (live_env (text_response (js ''[\"x```1```y\"]'')))
          (Obj []) (Num 3) (Arr []) (Str (js ''1b4e28ba'')))
       = Inr (Num 1)"
  by code_simp

end
